theory Spec2Isabelle
  imports Complex_Main
begin

section \<open>The flight-mode state machine of the quadrotor autopilot\<close>

text \<open>
  A shallow embedding of \<^verbatim>\<open>src/control/autopilot/src/autopilot.cpp\<close>. The member
  variables of class \<^verbatim>\<open>AutoPilot\<close> form a record that every callback takes and returns.
  The C++ type \<^verbatim>\<open>double\<close> is read as \<^typ>\<open>real\<close>, and \<^verbatim>\<open>ros::Time\<close> and
  \<^verbatim>\<open>ros::Duration\<close> as seconds in \<^typ>\<open>real\<close>: rounding, infinities and NaN are outside
  the model. Every call of \<^verbatim>\<open>ros::Time::now()\<close> that the file makes is a fresh reading
  of a clock, so two calls in one callback may return different times: \<open>clock env k\<close> is
  the time returned by the call number \<open>k\<close>, counted from the construction of the node.
\<close>

subsection \<open>Data\<close>

text \<open>The enumeration \<^verbatim>\<open>States\<close>, with the spelling of the source.\<close>

datatype States =
    OFF | START | HOVER | LAND | EMERGENCY_LAND | BREAKING | GO_TO_POSE
  | VELOCITY_CONTROL | REFERENCE_CONTROL | TRAJECTORY_CONTROL
  | COMMAND_FEEDTHROUGH | RC_MANUAL

text \<open>
  Modelled from the spec: the types of \<^verbatim>\<open>quadrotor_common\<close> and \<^verbatim>\<open>quadrotor_msgs\<close> are
  declared outside the source file. The records below hold the fields that section 3 of the
  specification lists for them.
\<close>

record Vector3d =
  vec_x :: real
  vec_y :: real
  vec_z :: real

record Quaterniond =
  quat_w :: real
  quat_x :: real
  quat_y :: real
  quat_z :: real

datatype CoordinateFrame = WORLD | OPTITRACK | VISION | LOCAL | UNKNOWN

record QuadStateEstimate =
  position :: Vector3d
  orientation :: Quaterniond
  velocity :: Vector3d
  isValid :: bool
  coordinate_frame :: CoordinateFrame

record TrajectoryPoint =
  ref_position :: Vector3d
  ref_velocity :: Vector3d
  heading :: real

datatype ControlMode = NONE | BODY_RATES | OTHER_CONTROL_MODE

record ControlCommand =
  control_mode :: ControlMode
  armed :: bool
  bodyrates :: Vector3d
  collective_thrust :: real
  timestamp :: real
  expected_execution_time :: real

text \<open>
  Modelled from the spec: the low-level feedback message is declared outside the source
  file. The callback only compares its \<^verbatim>\<open>control_mode\<close> with the constant
  \<^verbatim>\<open>RC_MANUAL\<close> of the message, so the message carries the outcome of that comparison.
\<close>

record LowLevelFeedback =
  control_mode_is_rc_manual :: bool

text \<open>The calls of the ROS logging macros, in the order in which they are made.\<close>

datatype LogLevel = LOG_INFO | LOG_INFO_THROTTLE | LOG_WARN | LOG_ERROR

type_synonym LogEntry = "LogLevel \<times> string"

text \<open>
  The configuration loaded by \<^verbatim>\<open>loadParameters\<close> and the collaborators the class calls:
  the base controller, the state predictor (whose state has the type \<^typ>\<open>'p\<close>), the
  conversion of a quaternion to its yaw angle, the control mode that
  \<^verbatim>\<open>ControlCommand::zero()\<close> sets, and the clock read by \<^verbatim>\<open>ros::Time::now()\<close>.
\<close>

record 'p Env =
  control_command_delay :: real
  optitrack_land_drop_height :: real
  optitrack_start_land_timeout :: real
  optitrack_start_height :: real
  start_idle_duration :: real
  idle_thrust :: real
  start_land_velocity :: real
  propeller_ramp_down_timeout :: real
  base_controller_run :: "QuadStateEstimate \<Rightarrow> TrajectoryPoint \<Rightarrow> ControlCommand"
  updateWithStateEstimate :: "QuadStateEstimate \<Rightarrow> 'p \<Rightarrow> 'p"
  pushCommandToQueue :: "ControlCommand \<Rightarrow> 'p \<Rightarrow> 'p"
  predictState :: "real \<Rightarrow> 'p \<Rightarrow> QuadStateEstimate"
  quaternionToYaw :: "Quaterniond \<Rightarrow> real"
  zero_control_mode :: ControlMode
  clock :: "nat \<Rightarrow> real"

text \<open>
  The member variables. \<open>control_command_pub\<close> holds the messages published so far,
  \<open>rosout\<close> the logging calls made so far, and \<open>clock_reads\<close> counts the calls of
  \<^verbatim>\<open>ros::Time::now()\<close>.
\<close>

record 'p AutoPilot =
  autopilot_state :: States
  state_before_rc_manual_flight :: States
  state_predictor :: 'p
  reference_state :: TrajectoryPoint
  received_state_est :: QuadStateEstimate
  state_estimate_available :: bool
  time_of_switch_to_current_state :: real
  first_time_in_new_state :: bool
  initial_start_position :: Vector3d
  initial_land_position :: Vector3d
  initial_drop_thrust :: real
  time_to_ramp_down :: bool
  time_started_ramping_down :: real
  control_command_pub :: "ControlCommand list"
  rosout :: "LogEntry list"
  clock_reads :: nat

subsection \<open>Default values\<close>

definition Vector3d_Zero :: Vector3d where
  "Vector3d_Zero = \<lparr>vec_x = 0, vec_y = 0, vec_z = 0\<rparr>"

definition Quaterniond_Identity :: Quaterniond where
  "Quaterniond_Identity = \<lparr>quat_w = 1, quat_x = 0, quat_y = 0, quat_z = 0\<rparr>"

text \<open>
  Modelled from the spec: the default constructors and \<^verbatim>\<open>ControlCommand::zero()\<close> are
  defined outside the source file. A fresh reference point has zero velocity, a fresh
  command carries the sentinel mode \<open>NONE\<close> and is not armed, and a zeroed command is
  disarmed with zero body rates and zero thrust.
\<close>

definition TrajectoryPoint_default :: TrajectoryPoint where
  "TrajectoryPoint_default =
     \<lparr>ref_position = Vector3d_Zero, ref_velocity = Vector3d_Zero, heading = 0\<rparr>"

definition QuadStateEstimate_default :: QuadStateEstimate where
  "QuadStateEstimate_default =
     \<lparr>position = Vector3d_Zero, orientation = Quaterniond_Identity,
      velocity = Vector3d_Zero, isValid = False, coordinate_frame = UNKNOWN\<rparr>"

definition ControlCommand_default :: ControlCommand where
  "ControlCommand_default =
     \<lparr>control_mode = NONE, armed = False, bodyrates = Vector3d_Zero,
      collective_thrust = 0, timestamp = 0, expected_execution_time = 0\<rparr>"

definition zero :: "'p Env \<Rightarrow> ControlCommand \<Rightarrow> ControlCommand" where
  "zero env c =
     c\<lparr>control_mode := zero_control_mode env, armed := False,
       bodyrates := Vector3d_Zero, collective_thrust := 0\<rparr>"

text \<open>
  The constructor. The members it leaves out of its initialiser list and that have no
  default constructor of their own (\<^verbatim>\<open>initial_start_position_\<close>,
  \<^verbatim>\<open>initial_land_position_\<close>, \<^verbatim>\<open>initial_drop_thrust_\<close>) start with values the
  language does not fix; they are arguments here, as is the state of the predictor.
\<close>

definition AutoPilot_init ::
  "'p \<Rightarrow> Vector3d \<Rightarrow> Vector3d \<Rightarrow> real \<Rightarrow> 'p AutoPilot" where
  "AutoPilot_init pred start_pos land_pos drop_thrust =
     \<lparr>autopilot_state = OFF,
      state_before_rc_manual_flight = OFF,
      state_predictor = pred,
      reference_state = TrajectoryPoint_default,
      received_state_est = QuadStateEstimate_default,
      state_estimate_available = False,
      time_of_switch_to_current_state = 0,
      first_time_in_new_state = True,
      initial_start_position = start_pos,
      initial_land_position = land_pos,
      initial_drop_thrust = drop_thrust,
      time_to_ramp_down = False,
      time_started_ramping_down = 0,
      control_command_pub = [],
      rosout = [],
      clock_reads = 0\<rparr>"

subsection \<open>Helpers of the class\<close>

definition now :: "'p Env \<Rightarrow> 'p AutoPilot \<Rightarrow> real \<times> 'p AutoPilot" where
  "now env s = (clock env (clock_reads s), s\<lparr>clock_reads := Suc (clock_reads s)\<rparr>)"

definition ros_log :: "LogLevel \<Rightarrow> string \<Rightarrow> 'p AutoPilot \<Rightarrow> 'p AutoPilot" where
  "ros_log lvl txt s = s\<lparr>rosout := rosout s @ [(lvl, txt)]\<rparr>"

definition setAutoPilotState :: "'p Env \<Rightarrow> States \<Rightarrow> 'p AutoPilot \<Rightarrow> 'p AutoPilot" where
  "setAutoPilotState env new_state s =
     (let (t, s1) = now env s;
          s2 = s1\<lparr>time_of_switch_to_current_state := t, first_time_in_new_state := True\<rparr>;
          s3 = (if new_state = RC_MANUAL
                then s2\<lparr>state_before_rc_manual_flight := OFF\<rparr> else s2)
      in s3\<lparr>autopilot_state := new_state\<rparr>)"

definition timeInCurrentState :: "'p Env \<Rightarrow> 'p AutoPilot \<Rightarrow> real \<times> 'p AutoPilot" where
  "timeInCurrentState env s =
     (let (t, s1) = now env s in (t - time_of_switch_to_current_state s1, s1))"

definition getPredictedStateEstimate ::
  "'p Env \<Rightarrow> real \<Rightarrow> 'p AutoPilot \<Rightarrow> QuadStateEstimate" where
  "getPredictedStateEstimate env time s = predictState env time (state_predictor s)"

definition publishControlCommand ::
  "'p Env \<Rightarrow> ControlCommand \<Rightarrow> 'p AutoPilot \<Rightarrow> 'p AutoPilot" where
  "publishControlCommand env control_cmd s =
     (if control_mode control_cmd = NONE
      then ros_log LOG_ERROR ''Control mode is NONE, will not publish ControlCommand'' s
      else s\<lparr>control_command_pub := control_command_pub s @ [control_cmd],
             state_predictor := pushCommandToQueue env control_cmd (state_predictor s),
             initial_drop_thrust := collective_thrust control_cmd\<rparr>)"

subsection \<open>The reference generators\<close>

definition start ::
  "'p Env \<Rightarrow> QuadStateEstimate \<Rightarrow> 'p AutoPilot \<Rightarrow> ControlCommand \<times> 'p AutoPilot" where
  "start env state_estimate s =
     (let command = ControlCommand_default;
          s1 = (if first_time_in_new_state s
                then (let a = s\<lparr>first_time_in_new_state := False,
                                 initial_start_position := position state_estimate,
                                 reference_state := TrajectoryPoint_default
                                   \<lparr>ref_position := position state_estimate,
                                    heading := quaternionToYaw env (orientation state_estimate)\<rparr>\<rparr>
                      in if vec_z (position state_estimate) \<ge> optitrack_land_drop_height env
                         then setAutoPilotState env HOVER a else a)
                else s);
          (t1, s2) = timeInCurrentState env s1
      in if t1 > optitrack_start_land_timeout env
            \<or> vec_z (ref_position (reference_state s2)) \<ge> optitrack_start_height env
         then (let s3 = setAutoPilotState env HOVER s2
               in (base_controller_run env state_estimate (reference_state s3), s3))
         else (let (t2, s3) = timeInCurrentState env s2
               in if t2 < start_idle_duration env
                  then (command\<lparr>control_mode := BODY_RATES, armed := True,
                                bodyrates := Vector3d_Zero,
                                collective_thrust := idle_thrust env\<rparr>, s3)
                  else (let (t3, s4) = timeInCurrentState env s3;
                            r = reference_state s4;
                            s5 = s4\<lparr>reference_state := r
                                   \<lparr>ref_position := (ref_position r)
                                      \<lparr>vec_z := vec_z (initial_start_position s4)
                                         + start_land_velocity env * (t3 - start_idle_duration env)\<rparr>,
                                    ref_velocity := (ref_velocity r)
                                      \<lparr>vec_z := start_land_velocity env\<rparr>\<rparr>\<rparr>
                        in (base_controller_run env state_estimate (reference_state s5), s5))))"

definition hover ::
  "'p Env \<Rightarrow> QuadStateEstimate \<Rightarrow> 'p AutoPilot \<Rightarrow> ControlCommand \<times> 'p AutoPilot" where
  "hover env state_estimate s =
     (let s1 = (if first_time_in_new_state s
                then s\<lparr>first_time_in_new_state := False,
                       reference_state := TrajectoryPoint_default
                         \<lparr>ref_position := position state_estimate,
                          heading := quaternionToYaw env (orientation state_estimate)\<rparr>\<rparr>
                else s)
      in (base_controller_run env state_estimate (reference_state s1), s1))"

definition land ::
  "'p Env \<Rightarrow> QuadStateEstimate \<Rightarrow> 'p AutoPilot \<Rightarrow> ControlCommand \<times> 'p AutoPilot" where
  "land env state_estimate s =
     (let s1 = (if first_time_in_new_state s
                then s\<lparr>first_time_in_new_state := False,
                       initial_land_position := position state_estimate,
                       reference_state := TrajectoryPoint_default
                         \<lparr>ref_position := position state_estimate,
                          heading := quaternionToYaw env (orientation state_estimate)\<rparr>,
                       time_to_ramp_down := False\<rparr>
                else s);
          (t1, s2) = timeInCurrentState env s1;
          r = reference_state s2;
          s3 = s2\<lparr>reference_state := r
                 \<lparr>ref_position := (ref_position r)
                    \<lparr>vec_z := max 0 (vec_z (initial_land_position s2)
                                       - start_land_velocity env * t1)\<rparr>,
                  ref_velocity := (ref_velocity r)\<lparr>vec_z := - start_land_velocity env\<rparr>\<rparr>\<rparr>;
          command = base_controller_run env state_estimate (reference_state s3);
          (latch, s4) =
             (if time_to_ramp_down s3 then (False, s3)
              else if vec_z (position state_estimate) < optitrack_land_drop_height env
                   then (True, s3)
                   else (let (t2, a) = timeInCurrentState env s3
                         in (t2 > optitrack_start_land_timeout env, a)));
          s5 = (if latch
                then (let (t3, a) = now env s4
                      in a\<lparr>time_to_ramp_down := True, time_started_ramping_down := t3\<rparr>)
                else s4);
          (command1, s6) =
             (if time_to_ramp_down s5
              then (let a = ros_log LOG_INFO_THROTTLE ''Ramping propeller down'' s5;
                        (t4, b) = now env a
                    in (command\<lparr>collective_thrust :=
                          initial_drop_thrust b
                          - initial_drop_thrust b / propeller_ramp_down_timeout env
                            * (t4 - time_started_ramping_down b)\<rparr>, b))
              else (command, s5))
      in if collective_thrust command1 \<le> 0
         then (zero env command1, setAutoPilotState env OFF s6)
         else (command1, s6))"

subsection \<open>The callbacks\<close>

definition stateEstimateCallback ::
  "'p Env \<Rightarrow> QuadStateEstimate \<Rightarrow> 'p AutoPilot \<Rightarrow> 'p AutoPilot" where
  "stateEstimateCallback env msg s =
     (let s1 = s\<lparr>state_estimate_available := True, received_state_est := msg\<rparr>;
          s2 = (if \<not> isValid (received_state_est s1)
                then (let a = s1\<lparr>state_estimate_available := False\<rparr>
                      in if autopilot_state a \<noteq> OFF \<and> autopilot_state a \<noteq> EMERGENCY_LAND
                         then ros_log LOG_ERROR
                                ''Received invalid state estimate, going to EMERGENCY_LANDING''
                                (setAutoPilotState env EMERGENCY_LAND a)
                         else a)
                else s1);
          s3 = s2\<lparr>state_predictor :=
                    updateWithStateEstimate env (received_state_est s2) (state_predictor s2)\<rparr>;
          control_cmd = ControlCommand_default;
          (wall_time_now, s4) = now env s3;
          command_execution_time = wall_time_now + control_command_delay env;
          predicted_state = getPredictedStateEstimate env command_execution_time s4;
          (control_cmd1, s5) =
             (case autopilot_state s4 of
                OFF \<Rightarrow> (zero env control_cmd, s4)
              | START \<Rightarrow> start env predicted_state s4
              | HOVER \<Rightarrow> hover env predicted_state s4
              | LAND \<Rightarrow> land env predicted_state s4
              | EMERGENCY_LAND \<Rightarrow>
                  (control_cmd,
                   if state_estimate_available s4 then setAutoPilotState env HOVER s4 else s4)
              | BREAKING \<Rightarrow> (control_cmd, s4)
              | GO_TO_POSE \<Rightarrow> (control_cmd, s4)
              | VELOCITY_CONTROL \<Rightarrow> (control_cmd, s4)
              | REFERENCE_CONTROL \<Rightarrow> (control_cmd, s4)
              | TRAJECTORY_CONTROL \<Rightarrow> (control_cmd, s4)
              | COMMAND_FEEDTHROUGH \<Rightarrow> (control_cmd, s4)
              | RC_MANUAL \<Rightarrow>
                  ((zero env control_cmd)\<lparr>armed := True, collective_thrust := 9.81\<rparr>, s4))
      in if autopilot_state s5 \<noteq> COMMAND_FEEDTHROUGH
         then publishControlCommand env
                (control_cmd1\<lparr>timestamp := wall_time_now,
                              expected_execution_time := command_execution_time\<rparr>) s5
         else s5)"

definition lowLevelFeedbackCallback :: "LowLevelFeedback \<Rightarrow> 'p AutoPilot \<Rightarrow> 'p AutoPilot" where
  "lowLevelFeedbackCallback msg s =
     (let s1 = (if control_mode_is_rc_manual msg \<and> autopilot_state s \<noteq> RC_MANUAL
                then s\<lparr>autopilot_state := RC_MANUAL\<rparr> else s)
      in if \<not> control_mode_is_rc_manual msg \<and> autopilot_state s1 = RC_MANUAL
         then (if state_before_rc_manual_flight s1 = OFF
               then s1\<lparr>autopilot_state := OFF\<rparr>
               else s1\<lparr>autopilot_state := BREAKING\<rparr>)
         else s1)"

definition poseCommandCallback :: "'p AutoPilot \<Rightarrow> 'p AutoPilot" where
  "poseCommandCallback s = s"

definition velocityCommandCallback :: "'p AutoPilot \<Rightarrow> 'p AutoPilot" where
  "velocityCommandCallback s = s"

definition referenceStateCallback :: "'p AutoPilot \<Rightarrow> 'p AutoPilot" where
  "referenceStateCallback s = s"

definition trajectoryCallback :: "'p AutoPilot \<Rightarrow> 'p AutoPilot" where
  "trajectoryCallback s = s"

definition controlCommandInputCallback ::
  "ControlCommand \<Rightarrow> 'p AutoPilot \<Rightarrow> 'p AutoPilot" where
  "controlCommandInputCallback msg s =
     (if autopilot_state s \<noteq> OFF \<and> autopilot_state s \<noteq> HOVER
      then s
      else (let s1 = (if autopilot_state s \<noteq> COMMAND_FEEDTHROUGH
                      then s\<lparr>autopilot_state := COMMAND_FEEDTHROUGH\<rparr> else s)
            in s1\<lparr>control_command_pub := control_command_pub s1 @ [msg]\<rparr>))"

definition startCallback :: "'p Env \<Rightarrow> 'p AutoPilot \<Rightarrow> 'p AutoPilot" where
  "startCallback env s =
     (let s1 = ros_log LOG_INFO_THROTTLE ''START command received'' s
      in if autopilot_state s1 = OFF
         then (if state_estimate_available s1
               then (if coordinate_frame (received_state_est s1) = WORLD
                        \<or> coordinate_frame (received_state_est s1) = OPTITRACK
                     then setAutoPilotState env START
                            (ros_log LOG_INFO
                               ''Absolute state estimate available, taking off based on it'' s1)
                     else if coordinate_frame (received_state_est s1) = VISION
                             \<or> coordinate_frame (received_state_est s1) = LOCAL
                     then setAutoPilotState env HOVER
                            (ros_log LOG_INFO
                               ''Relative state estimate available, switch to hover'' s1)
                     else s1)
               else ros_log LOG_ERROR ''No state estimate available, will not start'' s1)
         else ros_log LOG_WARN ''Autopilot is not OFF, will not switch to START'' s1)"

definition landCallback :: "'p Env \<Rightarrow> 'p AutoPilot \<Rightarrow> 'p AutoPilot" where
  "landCallback env s =
     (let s1 = ros_log LOG_INFO_THROTTLE ''LAND command received'' s
      in if autopilot_state s1 = OFF \<or> autopilot_state s1 = LAND
            \<or> autopilot_state s1 = EMERGENCY_LAND
            \<or> autopilot_state s1 = COMMAND_FEEDTHROUGH
            \<or> autopilot_state s1 = RC_MANUAL
         then s1
         else if state_estimate_available s1
         then (if coordinate_frame (received_state_est s1) = WORLD
                  \<or> coordinate_frame (received_state_est s1) = OPTITRACK
               then setAutoPilotState env LAND
                      (ros_log LOG_INFO
                         ''Absolute state estimate available, landing based on it'' s1)
               else setAutoPilotState env EMERGENCY_LAND
                      (ros_log LOG_INFO
                         ''No absolute state estimate available, EMERGENCY_LAND instead'' s1))
         else setAutoPilotState env EMERGENCY_LAND s1)"

definition offCallback :: "'p Env \<Rightarrow> 'p AutoPilot \<Rightarrow> 'p AutoPilot" where
  "offCallback env s =
     (if autopilot_state s \<noteq> OFF
      then (let s1 = ros_log LOG_INFO ''OFF command received'' s;
                s2 = setAutoPilotState env OFF s1
            in s2\<lparr>state_before_rc_manual_flight := OFF\<rparr>)
      else s)"

subsection \<open>Runs of the node\<close>

text \<open>One constructor for each subscription of the constructor of the class.\<close>

datatype Event =
    EvStateEstimate QuadStateEstimate
  | EvLowLevelFeedback LowLevelFeedback
  | EvPoseCommand
  | EvVelocityCommand
  | EvReferenceState
  | EvTrajectory
  | EvControlCommandInput ControlCommand
  | EvStart
  | EvLand
  | EvOff

fun dispatch :: "'p Env \<Rightarrow> Event \<Rightarrow> 'p AutoPilot \<Rightarrow> 'p AutoPilot" where
  "dispatch env (EvStateEstimate msg) s = stateEstimateCallback env msg s"
| "dispatch env (EvLowLevelFeedback msg) s = lowLevelFeedbackCallback msg s"
| "dispatch env EvPoseCommand s = poseCommandCallback s"
| "dispatch env EvVelocityCommand s = velocityCommandCallback s"
| "dispatch env EvReferenceState s = referenceStateCallback s"
| "dispatch env EvTrajectory s = trajectoryCallback s"
| "dispatch env (EvControlCommandInput msg) s = controlCommandInputCallback msg s"
| "dispatch env EvStart s = startCallback env s"
| "dispatch env EvLand s = landCallback env s"
| "dispatch env EvOff s = offCallback env s"

text \<open>The callbacks run to completion, one after the other, in the order of arrival.\<close>

fun spin :: "'p Env \<Rightarrow> Event list \<Rightarrow> 'p AutoPilot \<Rightarrow> 'p AutoPilot" where
  "spin env [] s = s"
| "spin env (e # es) s = spin env es (dispatch env e s)"

subsection \<open>The stages of a tick\<close>

text \<open>
  Two parts of \<^verbatim>\<open>stateEstimateCallback\<close>, named for the proofs: the intake of the
  estimate (lines 66 to 83 of the source) and the switch over the mode (lines 95 to 137).
  Lemma \<open>stateEstimateCallback_stages\<close> shows that the callback is their composition
  with the reading of the clock and the publication.
\<close>

definition tick_receive :: "'p Env \<Rightarrow> QuadStateEstimate \<Rightarrow> 'p AutoPilot \<Rightarrow> 'p AutoPilot" where
  "tick_receive env msg s =
     (let s1 = s\<lparr>state_estimate_available := True, received_state_est := msg\<rparr>;
          s2 = (if \<not> isValid (received_state_est s1)
                then (let a = s1\<lparr>state_estimate_available := False\<rparr>
                      in if autopilot_state a \<noteq> OFF \<and> autopilot_state a \<noteq> EMERGENCY_LAND
                         then ros_log LOG_ERROR
                                ''Received invalid state estimate, going to EMERGENCY_LANDING''
                                (setAutoPilotState env EMERGENCY_LAND a)
                         else a)
                else s1)
      in s2\<lparr>state_predictor :=
                updateWithStateEstimate env (received_state_est s2) (state_predictor s2)\<rparr>)"

definition tick_compute ::
  "'p Env \<Rightarrow> QuadStateEstimate \<Rightarrow> 'p AutoPilot \<Rightarrow> ControlCommand \<times> 'p AutoPilot" where
  "tick_compute env predicted_state s4 =
     (let control_cmd = ControlCommand_default in
      case autopilot_state s4 of
         OFF \<Rightarrow> (zero env control_cmd, s4)
       | START \<Rightarrow> start env predicted_state s4
       | HOVER \<Rightarrow> hover env predicted_state s4
       | LAND \<Rightarrow> land env predicted_state s4
       | EMERGENCY_LAND \<Rightarrow>
           (control_cmd,
            if state_estimate_available s4 then setAutoPilotState env HOVER s4 else s4)
       | BREAKING \<Rightarrow> (control_cmd, s4)
       | GO_TO_POSE \<Rightarrow> (control_cmd, s4)
       | VELOCITY_CONTROL \<Rightarrow> (control_cmd, s4)
       | REFERENCE_CONTROL \<Rightarrow> (control_cmd, s4)
       | TRAJECTORY_CONTROL \<Rightarrow> (control_cmd, s4)
       | COMMAND_FEEDTHROUGH \<Rightarrow> (control_cmd, s4)
       | RC_MANUAL \<Rightarrow>
           ((zero env control_cmd)\<lparr>armed := True, collective_thrust := 9.81\<rparr>, s4))"

text \<open>
  The four parts of \<^verbatim>\<open>land\<close>, named for the proofs: the block of the first tick (lines
  370 to 380 of the source), the descent of the reference (lines 382 to 385), the setting of
  the latch (lines 390 to 396) and the ramp (lines 398 to 407). Lemma \<open>land_stages\<close> shows
  that \<^verbatim>\<open>land\<close> is their composition with the base controller and the final test of the
  thrust.
\<close>

definition land_enter :: "'p Env \<Rightarrow> QuadStateEstimate \<Rightarrow> 'p AutoPilot \<Rightarrow> 'p AutoPilot" where
  "land_enter env state_estimate s =
     (if first_time_in_new_state s
      then s\<lparr>first_time_in_new_state := False,
             initial_land_position := position state_estimate,
             reference_state := TrajectoryPoint_default
               \<lparr>ref_position := position state_estimate,
                heading := quaternionToYaw env (orientation state_estimate)\<rparr>,
             time_to_ramp_down := False\<rparr>
      else s)"

definition land_reference :: "'p Env \<Rightarrow> 'p AutoPilot \<Rightarrow> 'p AutoPilot" where
  "land_reference env s1 =
     (let (t1, s2) = timeInCurrentState env s1;
          r = reference_state s2
      in s2\<lparr>reference_state := r
             \<lparr>ref_position := (ref_position r)
                \<lparr>vec_z := max 0 (vec_z (initial_land_position s2)
                                   - start_land_velocity env * t1)\<rparr>,
              ref_velocity := (ref_velocity r)\<lparr>vec_z := - start_land_velocity env\<rparr>\<rparr>\<rparr>)"

definition land_latch :: "'p Env \<Rightarrow> QuadStateEstimate \<Rightarrow> 'p AutoPilot \<Rightarrow> 'p AutoPilot" where
  "land_latch env state_estimate s3 =
     (let (latch, s4) =
             (if time_to_ramp_down s3 then (False, s3)
              else if vec_z (position state_estimate) < optitrack_land_drop_height env
                   then (True, s3)
                   else (let (t2, a) = timeInCurrentState env s3
                         in (t2 > optitrack_start_land_timeout env, a)))
      in if latch
         then (let (t3, a) = now env s4
               in a\<lparr>time_to_ramp_down := True, time_started_ramping_down := t3\<rparr>)
         else s4)"

definition land_ramp ::
  "'p Env \<Rightarrow> ControlCommand \<Rightarrow> 'p AutoPilot \<Rightarrow> ControlCommand \<times> 'p AutoPilot" where
  "land_ramp env command s5 =
     (if time_to_ramp_down s5
      then (let a = ros_log LOG_INFO_THROTTLE ''Ramping propeller down'' s5;
                (t4, b) = now env a
            in (command\<lparr>collective_thrust :=
                  initial_drop_thrust b
                  - initial_drop_thrust b / propeller_ramp_down_timeout env
                    * (t4 - time_started_ramping_down b)\<rparr>, b))
      else (command, s5))"

text \<open>The estimate that a tick hands to the reference generator of the active mode.\<close>

definition tick_predicted :: "'p Env \<Rightarrow> QuadStateEstimate \<Rightarrow> 'p AutoPilot \<Rightarrow> QuadStateEstimate" where
  "tick_predicted env msg s =
     predictState env
       (clock env (clock_reads (tick_receive env msg s)) + control_command_delay env)
       (state_predictor (tick_receive env msg s))"

text \<open>The estimates of a list, delivered one after the other.\<close>

definition ticks :: "'p Env \<Rightarrow> QuadStateEstimate list \<Rightarrow> 'p AutoPilot \<Rightarrow> 'p AutoPilot" where
  "ticks env msgs s = spin env (map EvStateEstimate msgs) s"

subsection \<open>Notions for the ramp-down\<close>

text \<open>
  A node is ramping down when it is in \<open>LAND\<close>, has run its first tick there, and the
  latch \<open>time_to_ramp_down\<close> is set, with a latch time that does not lie after the next
  reading of the clock.
\<close>

definition ramping :: "'p Env \<Rightarrow> 'p AutoPilot \<Rightarrow> bool" where
  "ramping env s \<longleftrightarrow>
     autopilot_state s = LAND \<and> \<not> first_time_in_new_state s \<and> time_to_ramp_down s
     \<and> time_started_ramping_down s \<le> clock env (clock_reads s)"

text \<open>The latch, when it is set, was set at a time that does not lie after the clock.\<close>

definition latch_past :: "'p Env \<Rightarrow> 'p AutoPilot \<Rightarrow> bool" where
  "latch_past env s \<longleftrightarrow>
     (time_to_ramp_down s \<longrightarrow> time_started_ramping_down s \<le> clock env (clock_reads s))"

text \<open>
  The expression of lines 404 to 406 of the source, for the reading number \<open>k\<close> of the
  clock.
\<close>

definition ramp_thrust :: "'p Env \<Rightarrow> nat \<Rightarrow> 'p AutoPilot \<Rightarrow> real" where
  "ramp_thrust env k s =
     initial_drop_thrust s
     - initial_drop_thrust s / propeller_ramp_down_timeout env
       * (clock env k - time_started_ramping_down s)"

text \<open>The messages published between an earlier state and a later one.\<close>

definition published_since :: "'p AutoPilot \<Rightarrow> 'p AutoPilot \<Rightarrow> ControlCommand list" where
  "published_since s s' = drop (length (control_command_pub s)) (control_command_pub s')"

subsection \<open>A concrete configuration\<close>

text \<open>
  A configuration, collaborators and messages on which the callbacks can be evaluated. The
  predictor returns the estimate it received last, the base controller always asks for a
  thrust of 8, and the clock advances by an eighth of a second with every reading.
\<close>

definition example_command :: "real \<Rightarrow> ControlCommand" where
  "example_command thrust =
     \<lparr>control_mode = BODY_RATES, armed = True, bodyrates = Vector3d_Zero,
      collective_thrust = thrust, timestamp = 0, expected_execution_time = 0\<rparr>"

definition example_estimate :: "CoordinateFrame \<Rightarrow> bool \<Rightarrow> QuadStateEstimate" where
  "example_estimate frame valid =
     \<lparr>position = Vector3d_Zero, orientation = Quaterniond_Identity,
      velocity = Vector3d_Zero, isValid = valid, coordinate_frame = frame\<rparr>"

definition example_env :: "QuadStateEstimate Env" where
  "example_env =
     \<lparr>control_command_delay = 0,
      optitrack_land_drop_height = 1/2,
      optitrack_start_land_timeout = 16,
      optitrack_start_height = 1,
      start_idle_duration = 1/2,
      idle_thrust = 2,
      start_land_velocity = 1/2,
      propeller_ramp_down_timeout = 2,
      base_controller_run = (\<lambda>e r. example_command 8),
      updateWithStateEstimate = (\<lambda>e p. e),
      pushCommandToQueue = (\<lambda>c p. p),
      predictState = (\<lambda>t p. p),
      quaternionToYaw = quat_z,
      zero_control_mode = BODY_RATES,
      clock = (\<lambda>n. real n / 8)\<rparr>"

definition example_init :: "QuadStateEstimate AutoPilot" where
  "example_init = AutoPilot_init QuadStateEstimate_default Vector3d_Zero Vector3d_Zero 0"

text \<open>The node after a valid relative estimate and a start request: in \<open>HOVER\<close>, not yet ticked.\<close>

definition example_hover_entered :: "QuadStateEstimate AutoPilot" where
  "example_hover_entered =
     spin example_env [EvStateEstimate (example_estimate VISION True), EvStart] example_init"

text \<open>The same node after one more estimate, absolute this time: hovering.\<close>

definition example_hovering :: "QuadStateEstimate AutoPilot" where
  "example_hovering =
     stateEstimateCallback example_env (example_estimate WORLD True) example_hover_entered"

text \<open>The node after one valid estimate in the given frame: still \<open>OFF\<close>.\<close>

definition example_off :: "CoordinateFrame \<Rightarrow> QuadStateEstimate AutoPilot" where
  "example_off frame =
     stateEstimateCallback example_env (example_estimate frame True) example_init"

text \<open>The node after the pilot has taken over with the remote control.\<close>

definition example_rc_manual :: "QuadStateEstimate AutoPilot" where
  "example_rc_manual =
     spin example_env [EvLowLevelFeedback \<lparr>control_mode_is_rc_manual = True\<rparr>] example_init"

text \<open>
  The hovering node after a land request and one more estimate: in \<open>LAND\<close>, below the
  drop height, so that this first tick of the landing has set the ramp-down latch.
\<close>

definition example_landing :: "QuadStateEstimate AutoPilot" where
  "example_landing =
     stateEstimateCallback example_env (example_estimate WORLD True)
       (landCallback example_env example_hovering)"

text \<open>
  The events that lead to \<open>example_landing\<close>, and that state after four more estimates:
  the ramp has reached zero, so that the next tick ends the landing.
\<close>

definition example_events :: "Event list" where
  "example_events =
     [EvStateEstimate (example_estimate VISION True), EvStart,
      EvStateEstimate (example_estimate WORLD True), EvLand,
      EvStateEstimate (example_estimate WORLD True)]"

definition example_ramp_end :: "QuadStateEstimate AutoPilot" where
  "example_ramp_end =
     spin example_env
       (example_events
        @ [EvStateEstimate (example_estimate WORLD True),
           EvStateEstimate (example_estimate WORLD True),
           EvStateEstimate (example_estimate WORLD True),
           EvStateEstimate (example_estimate WORLD True)]) example_init"

text \<open>
  Three variants of the configuration: a negative ramp-down time, a clock that falls back
  to zero at its reading number 12, and a \<^verbatim>\<open>zero()\<close> that sets the control mode
  \<open>NONE\<close>. Each comes with the state that the same events lead to.
\<close>

definition example_env_negative :: "QuadStateEstimate Env" where
  "example_env_negative = example_env\<lparr>propeller_ramp_down_timeout := - 2\<rparr>"

definition example_landing_negative :: "QuadStateEstimate AutoPilot" where
  "example_landing_negative = spin example_env_negative example_events example_init"

definition example_env_backwards :: "QuadStateEstimate Env" where
  "example_env_backwards =
     example_env\<lparr>clock := (\<lambda>n. if n < 12 then real n / 8 else 0)\<rparr>"

definition example_landing_backwards :: "QuadStateEstimate AutoPilot" where
  "example_landing_backwards = spin example_env_backwards example_events example_init"

definition example_env_zero_none :: "QuadStateEstimate Env" where
  "example_env_zero_none = example_env\<lparr>zero_control_mode := NONE\<rparr>"

definition example_ramp_end_zero_none :: "QuadStateEstimate AutoPilot" where
  "example_ramp_end_zero_none =
     spin example_env_zero_none
       (example_events
        @ [EvStateEstimate (example_estimate WORLD True),
           EvStateEstimate (example_estimate WORLD True),
           EvStateEstimate (example_estimate WORLD True),
           EvStateEstimate (example_estimate WORLD True)]) example_init"

section \<open>Properties\<close>

lemmas callback_defs =
  stateEstimateCallback_def lowLevelFeedbackCallback_def controlCommandInputCallback_def
  startCallback_def landCallback_def offCallback_def poseCommandCallback_def
  velocityCommandCallback_def referenceStateCallback_def trajectoryCallback_def

lemmas helper_defs =
  publishControlCommand_def getPredictedStateEstimate_def timeInCurrentState_def
  setAutoPilotState_def ros_log_def now_def zero_def Let_def

lemmas default_defs =
  ControlCommand_default_def TrajectoryPoint_default_def QuadStateEstimate_default_def
  Vector3d_Zero_def Quaterniond_Identity_def

lemmas example_defs =
  example_command_def example_estimate_def example_env_def example_init_def
  example_hover_entered_def example_hovering_def example_off_def
  example_rc_manual_def example_landing_def AutoPilot_init_def

lemmas eval_defs =
  example_defs callback_defs start_def hover_def land_def helper_defs default_defs

subsection \<open>The tick as a composition of its stages\<close>

lemma stateEstimateCallback_stages:
  "stateEstimateCallback env msg s =
     (let s3 = tick_receive env msg s;
          wall_time_now = clock env (clock_reads s3);
          s4 = s3\<lparr>clock_reads := Suc (clock_reads s3)\<rparr>;
          command_execution_time = wall_time_now + control_command_delay env;
          predicted_state = predictState env command_execution_time (state_predictor s4);
          r = tick_compute env predicted_state s4
      in if autopilot_state (snd r) \<noteq> COMMAND_FEEDTHROUGH
         then publishControlCommand env
                ((fst r)\<lparr>timestamp := wall_time_now,
                          expected_execution_time := command_execution_time\<rparr>) (snd r)
         else snd r)"
  unfolding stateEstimateCallback_def tick_receive_def tick_compute_def now_def
    getPredictedStateEstimate_def Let_def split_def fst_conv snd_conv
  by (rule refl)

lemma land_stages:
  "land env state_estimate s =
     (let s3 = land_reference env (land_enter env state_estimate s);
          command = base_controller_run env state_estimate (reference_state s3);
          r = land_ramp env command (land_latch env state_estimate s3)
      in if collective_thrust (fst r) \<le> 0
         then (zero env (fst r), setAutoPilotState env OFF (snd r))
         else (fst r, snd r))"
  unfolding land_def land_enter_def land_reference_def land_latch_def land_ramp_def
    Let_def split_def fst_conv snd_conv
  by (rule refl)


subsection \<open>The concrete states\<close>

lemma example_init_fields:
  "autopilot_state example_init = OFF"
  "state_estimate_available example_init = False"
  "control_command_pub example_init = []"
  by (simp_all add: example_init_def AutoPilot_init_def)

lemma example_hover_entered_fields:
  "autopilot_state example_hover_entered = HOVER"
  "first_time_in_new_state example_hover_entered = True"
  "state_estimate_available example_hover_entered = True"
  "coordinate_frame (received_state_est example_hover_entered) = VISION"
  by code_simp+

lemma example_hovering_fields:
  "autopilot_state example_hovering = HOVER"
  "first_time_in_new_state example_hovering = False"
  "time_of_switch_to_current_state example_hovering = 1 / 8"
  "clock_reads example_hovering = 3"
  "state_estimate_available example_hovering = True"
  "coordinate_frame (received_state_est example_hovering) = WORLD"
  by code_simp+

lemma example_off_fields:
  "autopilot_state (example_off WORLD) = OFF"
  "state_estimate_available (example_off WORLD) = True"
  "coordinate_frame (received_state_est (example_off WORLD)) = WORLD"
  "autopilot_state (example_off VISION) = OFF"
  "state_estimate_available (example_off VISION) = True"
  "coordinate_frame (received_state_est (example_off VISION)) = VISION"
  "autopilot_state (example_off UNKNOWN) = OFF"
  "state_estimate_available (example_off UNKNOWN) = True"
  "coordinate_frame (received_state_est (example_off UNKNOWN)) = UNKNOWN"
  "isValid (received_state_est (example_off UNKNOWN)) = True"
  by code_simp+

lemma example_rc_manual_fields:
  "autopilot_state example_rc_manual = RC_MANUAL"
  by code_simp

lemma example_landing_fields:
  "autopilot_state example_landing = LAND"
  "first_time_in_new_state example_landing = False"
  "time_to_ramp_down example_landing = True"
  "time_started_ramping_down example_landing = 3 / 4"
  "clock_reads example_landing = 8"
  "initial_drop_thrust example_landing = 15 / 2"
  "initial_drop_thrust (landCallback example_env example_hovering) = 8"
  by code_simp+

lemma example_landing_run:
  "map collective_thrust
     (published_since example_landing
        (ticks example_env
           [example_estimate WORLD True, example_estimate WORLD True,
            example_estimate WORLD True, example_estimate WORLD True,
            example_estimate WORLD True] example_landing))
   = [45 / 8, 405 / 128, 1215 / 1024, 3645 / 16384, 0]"
  "autopilot_state
        (ticks example_env
           [example_estimate WORLD True, example_estimate WORLD True,
            example_estimate WORLD True, example_estimate WORLD True,
            example_estimate WORLD True] example_landing) = OFF"
  by code_simp+

lemma example_landing_second:
  "map collective_thrust
     (published_since example_landing
        (stateEstimateCallback example_env (example_estimate WORLD True) example_landing))
   = [45 / 8]"
  by code_simp

lemma example_landing_reached:
  "example_landing = spin example_env example_events example_init"
  by (simp add: example_landing_def example_hovering_def example_hover_entered_def
        example_events_def)

lemma example_ramp_end_fields:
  "autopilot_state example_ramp_end = LAND"
  "first_time_in_new_state example_ramp_end = False"
  "time_to_ramp_down example_ramp_end = True"
  "ramp_thrust example_env (clock_reads example_ramp_end + 2) example_ramp_end = 0"
  by code_simp+

lemma example_landing_negative_fields:
  "autopilot_state example_landing_negative = LAND"
  "first_time_in_new_state example_landing_negative = False"
  "time_to_ramp_down example_landing_negative = True"
  "map collective_thrust
     (published_since example_landing_negative
        (ticks example_env_negative
           [example_estimate WORLD True, example_estimate WORLD True]
           example_landing_negative))
   = [85 / 8, 1955 / 128]"
  "autopilot_state
     (ticks example_env_negative
        [example_estimate WORLD True, example_estimate WORLD True]
        example_landing_negative) = LAND"
  by code_simp+

lemma example_landing_backwards_fields:
  "autopilot_state example_landing_backwards = LAND"
  "first_time_in_new_state example_landing_backwards = False"
  "time_to_ramp_down example_landing_backwards = True"
  "map collective_thrust
     (published_since example_landing_backwards
        (ticks example_env_backwards
           [example_estimate WORLD True, example_estimate WORLD True]
           example_landing_backwards))
   = [45 / 8, 495 / 64]"
  "autopilot_state
     (ticks example_env_backwards
        [example_estimate WORLD True, example_estimate WORLD True]
        example_landing_backwards) = LAND"
  by code_simp+

lemma example_ramp_end_zero_none_fields:
  "autopilot_state example_ramp_end_zero_none = LAND"
  "first_time_in_new_state example_ramp_end_zero_none = False"
  "time_to_ramp_down example_ramp_end_zero_none = True"
  "autopilot_state
     (stateEstimateCallback example_env_zero_none (example_estimate WORLD True)
        example_ramp_end_zero_none) = OFF"
  "published_since example_ramp_end_zero_none
     (stateEstimateCallback example_env_zero_none (example_estimate WORLD True)
        example_ramp_end_zero_none) = []"
  by code_simp+

lemma example_clock_mono: "mono (clock example_env)"
  by (simp add: example_env_def mono_def divide_right_mono)

subsection \<open>External commands\<close>

text \<open>What the callback does in every state: only \<open>OFF\<close> and \<open>HOVER\<close> let a command through.\<close>

lemma controlCommandInputCallback_cases:
  "controlCommandInputCallback msg s =
     (if autopilot_state s = OFF \<or> autopilot_state s = HOVER
      then s\<lparr>autopilot_state := COMMAND_FEEDTHROUGH,
             control_command_pub := control_command_pub s @ [msg]\<rparr>
      else s)"
  by (auto simp: controlCommandInputCallback_def)

text \<open>
  Claim C1. The external-command handler is said to accept a command exactly when the mode
  is \<open>OFF\<close>, \<open>HOVER\<close> or \<open>COMMAND_FEEDTHROUGH\<close>, and in particular to accept and publish a
  further command when the mode is already \<open>COMMAND_FEEDTHROUGH\<close>. The guard at the head of
  \<^verbatim>\<open>controlCommandInputCallback\<close> returns for every mode other than \<open>OFF\<close> and
  \<open>HOVER\<close>: the first command of the run below is published and switches the mode, the
  second one is dropped and leaves the node as it was.
\<close>

theorem controlCommandInput_dropped_in_feedthrough:
  "autopilot_state (controlCommandInputCallback (example_command 1) example_init)
     = COMMAND_FEEDTHROUGH
   \<and> control_command_pub (controlCommandInputCallback (example_command 1) example_init)
     = [example_command 1]
   \<and> controlCommandInputCallback (example_command 2)
       (controlCommandInputCallback (example_command 1) example_init)
     = controlCommandInputCallback (example_command 1) example_init"
  by (simp add: controlCommandInputCallback_def example_init_fields)

subsection \<open>Writes of the mode\<close>

text \<open>
  Claim C2. Every write of a different value to the mode is said to set the latch
  \<open>first_time_in_new_state\<close> and to store the current time as the time of the switch.
  \<^verbatim>\<open>setAutoPilotState\<close> does both, but \<^verbatim>\<open>controlCommandInputCallback\<close> and
  \<^verbatim>\<open>lowLevelFeedbackCallback\<close> assign the mode directly: from a hovering node whose
  latch is cleared, either of them changes the mode, leaves the latch cleared and leaves the
  time of the switch at its old value, earlier than the next reading of the clock.
\<close>

theorem mode_written_without_reset:
  "autopilot_state example_hovering = HOVER
   \<and> \<not> first_time_in_new_state example_hovering
   \<and> autopilot_state (controlCommandInputCallback (example_command 1) example_hovering)
       = COMMAND_FEEDTHROUGH
   \<and> \<not> first_time_in_new_state
         (controlCommandInputCallback (example_command 1) example_hovering)
   \<and> time_of_switch_to_current_state
         (controlCommandInputCallback (example_command 1) example_hovering)
       = time_of_switch_to_current_state example_hovering
   \<and> time_of_switch_to_current_state
         (controlCommandInputCallback (example_command 1) example_hovering)
       < clock example_env (clock_reads example_hovering)
   \<and> autopilot_state
         (lowLevelFeedbackCallback \<lparr>control_mode_is_rc_manual = True\<rparr> example_hovering)
       = RC_MANUAL
   \<and> \<not> first_time_in_new_state
         (lowLevelFeedbackCallback \<lparr>control_mode_is_rc_manual = True\<rparr> example_hovering)
   \<and> time_of_switch_to_current_state
         (lowLevelFeedbackCallback \<lparr>control_mode_is_rc_manual = True\<rparr> example_hovering)
       < clock example_env (clock_reads example_hovering)"
  by (simp add: example_hovering_fields controlCommandInputCallback_def
        lowLevelFeedbackCallback_def example_env_def)

subsection \<open>Invalid estimates\<close>

text \<open>
  Claim C5. A tick whose estimate fails validity ends in \<open>EMERGENCY_LAND\<close> when it began in
  a mode other than \<open>OFF\<close> and \<open>EMERGENCY_LAND\<close>, and ends in the mode it began in
  otherwise: the recovery to \<open>HOVER\<close> needs an available estimate, which an invalid
  estimate has just withdrawn.
\<close>

theorem invalid_estimate_mode:
  "\<not> isValid msg \<Longrightarrow>
   autopilot_state (stateEstimateCallback env msg s) =
     (if autopilot_state s = OFF \<or> autopilot_state s = EMERGENCY_LAND
      then autopilot_state s else EMERGENCY_LAND)"
  by (auto simp: stateEstimateCallback_def helper_defs split: prod.splits)

theorem invalid_estimate_mode_witness:
  "\<not> isValid (example_estimate WORLD False)
   \<and> autopilot_state example_hover_entered = HOVER
   \<and> autopilot_state
        (stateEstimateCallback example_env (example_estimate WORLD False) example_hover_entered)
       = EMERGENCY_LAND
   \<and> autopilot_state example_init = OFF
   \<and> autopilot_state
        (stateEstimateCallback example_env (example_estimate WORLD False) example_init) = OFF"
proof -
  have h: "\<not> isValid (example_estimate WORLD False)"
    by (simp add: example_estimate_def)
  show ?thesis
    using h invalid_estimate_mode [OF h, of example_env example_hover_entered]
      invalid_estimate_mode [OF h, of example_env example_init]
    by (simp add: example_hover_entered_fields example_init_fields)
qed

subsection \<open>Start and land requests\<close>

text \<open>
  The flag \<open>state_estimate_available\<close> is what the requests consult. In every state the
  node reaches from its constructor the flag is set only while the estimate received last
  is valid, so the flag stands for "a valid estimate is available".
\<close>

lemma estimate_setAutoPilotState:
  "state_estimate_available (setAutoPilotState env n s) = state_estimate_available s"
  "received_state_est (setAutoPilotState env n s) = received_state_est s"
  by (simp_all add: helper_defs)

lemma estimate_start:
  "state_estimate_available (snd (start env e s)) = state_estimate_available s"
  "received_state_est (snd (start env e s)) = received_state_est s"
  by (simp_all add: start_def helper_defs split_def)

lemma estimate_hover:
  "state_estimate_available (snd (hover env e s)) = state_estimate_available s"
  "received_state_est (snd (hover env e s)) = received_state_est s"
  by (simp_all add: hover_def helper_defs split_def)

lemma estimate_land:
  "state_estimate_available (snd (land env e s)) = state_estimate_available s"
  "received_state_est (snd (land env e s)) = received_state_est s"
  by (simp_all add: land_def helper_defs split_def)

lemma estimate_publishControlCommand:
  "state_estimate_available (publishControlCommand env c s) = state_estimate_available s"
  "received_state_est (publishControlCommand env c s) = received_state_est s"
  by (simp_all add: helper_defs)

lemma estimate_tick_compute:
  "state_estimate_available (snd (tick_compute env e s)) = state_estimate_available s"
  "received_state_est (snd (tick_compute env e s)) = received_state_est s"
  by (cases "autopilot_state s";
      simp add: tick_compute_def estimate_start estimate_hover estimate_land
        estimate_setAutoPilotState)+

lemma estimate_tick_receive:
  "state_estimate_available (tick_receive env msg s) = isValid msg"
  "received_state_est (tick_receive env msg s) = msg"
  by (simp_all add: tick_receive_def helper_defs)

lemma estimate_stateEstimateCallback:
  "state_estimate_available (stateEstimateCallback env msg s) = isValid msg"
  "received_state_est (stateEstimateCallback env msg s) = msg"
  by (simp_all add: stateEstimateCallback_stages Let_def estimate_publishControlCommand
        estimate_tick_compute estimate_tick_receive)

lemma available_valid_dispatch:
  "state_estimate_available s \<longrightarrow> isValid (received_state_est s) \<Longrightarrow>
   state_estimate_available (dispatch env e s) \<longrightarrow> isValid (received_state_est (dispatch env e s))"
  by (cases e)
     (simp_all add: estimate_stateEstimateCallback estimate_setAutoPilotState
        lowLevelFeedbackCallback_def controlCommandInputCallback_def startCallback_def
        landCallback_def offCallback_def poseCommandCallback_def velocityCommandCallback_def
        referenceStateCallback_def trajectoryCallback_def ros_log_def Let_def)

lemma available_valid_spin:
  "state_estimate_available s \<longrightarrow> isValid (received_state_est s) \<Longrightarrow>
   state_estimate_available (spin env es s) \<longrightarrow> isValid (received_state_est (spin env es s))"
  by (induction es arbitrary: s) (simp_all add: available_valid_dispatch del: dispatch.simps)

lemma available_estimate_is_valid:
  "state_estimate_available (spin env es (AutoPilot_init p a b c)) \<Longrightarrow>
   isValid (received_state_est (spin env es (AutoPilot_init p a b c)))"
  using available_valid_spin [of "AutoPilot_init p a b c" env es]
  by (simp add: AutoPilot_init_def)

text \<open>
  Claim C6. The start request leaves the mode as it is when the mode is not \<open>OFF\<close> or no
  valid estimate is available; from \<open>OFF\<close> with an available estimate it switches to
  \<open>START\<close> when the frame is \<open>WORLD\<close> or \<open>OPTITRACK\<close>, and to \<open>HOVER\<close> when the
  frame is \<open>VISION\<close> or \<open>LOCAL\<close>.
\<close>

theorem startCallback_mode:
  "(autopilot_state s \<noteq> OFF \<or> \<not> state_estimate_available s
      \<longrightarrow> autopilot_state (startCallback env s) = autopilot_state s)
   \<and> (autopilot_state s = OFF \<and> state_estimate_available s
        \<and> coordinate_frame (received_state_est s) \<in> {WORLD, OPTITRACK}
      \<longrightarrow> autopilot_state (startCallback env s) = START)
   \<and> (autopilot_state s = OFF \<and> state_estimate_available s
        \<and> coordinate_frame (received_state_est s) \<in> {VISION, LOCAL}
      \<longrightarrow> autopilot_state (startCallback env s) = HOVER)"
  by (auto simp: startCallback_def helper_defs)

theorem startCallback_mode_witness:
  "autopilot_state (startCallback example_env example_hover_entered) = HOVER
   \<and> autopilot_state (startCallback example_env example_init) = OFF
   \<and> autopilot_state (startCallback example_env (example_off WORLD)) = START
   \<and> autopilot_state (startCallback example_env (example_off VISION)) = HOVER"
  using startCallback_mode [of example_hover_entered example_env]
    startCallback_mode [of example_init example_env]
    startCallback_mode [of "example_off WORLD" example_env]
    startCallback_mode [of "example_off VISION" example_env]
  by (simp add: example_hover_entered_fields example_init_fields example_off_fields)

text \<open>
  Claim C7. The land request changes nothing but the log when the mode is \<open>OFF\<close>,
  \<open>LAND\<close>, \<open>EMERGENCY_LAND\<close>, \<open>COMMAND_FEEDTHROUGH\<close> or \<open>RC_MANUAL\<close>. In every other
  mode it switches to \<open>LAND\<close> when an estimate is available and its frame is \<open>WORLD\<close> or
  \<open>OPTITRACK\<close>, and to \<open>EMERGENCY_LAND\<close> when an estimate is available in another frame
  or no estimate is available.
\<close>

theorem landCallback_mode:
  "(autopilot_state s \<in> {OFF, LAND, EMERGENCY_LAND, COMMAND_FEEDTHROUGH, RC_MANUAL}
      \<longrightarrow> landCallback env s
          = s\<lparr>rosout := rosout s @ [(LOG_INFO_THROTTLE, ''LAND command received'')]\<rparr>)
   \<and> (autopilot_state s \<notin> {OFF, LAND, EMERGENCY_LAND, COMMAND_FEEDTHROUGH, RC_MANUAL}
      \<longrightarrow> (state_estimate_available s
             \<and> coordinate_frame (received_state_est s) \<in> {WORLD, OPTITRACK}
           \<longrightarrow> autopilot_state (landCallback env s) = LAND)
        \<and> (state_estimate_available s
             \<and> coordinate_frame (received_state_est s) \<notin> {WORLD, OPTITRACK}
           \<longrightarrow> autopilot_state (landCallback env s) = EMERGENCY_LAND)
        \<and> (\<not> state_estimate_available s
           \<longrightarrow> autopilot_state (landCallback env s) = EMERGENCY_LAND))"
  by (auto simp: landCallback_def helper_defs)

theorem landCallback_mode_witness:
  "landCallback example_env example_init
     = example_init\<lparr>rosout := rosout example_init
                       @ [(LOG_INFO_THROTTLE, ''LAND command received'')]\<rparr>
   \<and> autopilot_state (landCallback example_env example_hovering) = LAND
   \<and> autopilot_state (landCallback example_env example_hover_entered) = EMERGENCY_LAND
   \<and> autopilot_state
       (landCallback example_env (example_hovering\<lparr>state_estimate_available := False\<rparr>))
     = EMERGENCY_LAND"
  using landCallback_mode [of example_init example_env]
    landCallback_mode [of example_hovering example_env]
    landCallback_mode [of example_hover_entered example_env]
    landCallback_mode [of "example_hovering\<lparr>state_estimate_available := False\<rparr>" example_env]
  by (simp add: example_hover_entered_fields example_init_fields example_hovering_fields)

text \<open>
  Claim C10. A start request in mode \<open>OFF\<close> with an available estimate whose frame is none
  of \<open>WORLD\<close>, \<open>OPTITRACK\<close>, \<open>VISION\<close> and \<open>LOCAL\<close> changes no member of the node, and
  the only logging call it makes is the throttled notice that every start request makes:
  neither the error of a missing estimate nor the warning of a mode other than \<open>OFF\<close>.
\<close>

theorem startCallback_unknown_frame_silent:
  "autopilot_state s = OFF \<Longrightarrow> state_estimate_available s \<Longrightarrow>
   coordinate_frame (received_state_est s) = UNKNOWN \<Longrightarrow>
   startCallback env s
     = s\<lparr>rosout := rosout s @ [(LOG_INFO_THROTTLE, ''START command received'')]\<rparr>"
  by (simp add: startCallback_def helper_defs)

theorem startCallback_unknown_frame_silent_witness:
  "autopilot_state (example_off UNKNOWN) = OFF
   \<and> state_estimate_available (example_off UNKNOWN)
   \<and> isValid (received_state_est (example_off UNKNOWN))
   \<and> coordinate_frame (received_state_est (example_off UNKNOWN)) = UNKNOWN
   \<and> startCallback example_env (example_off UNKNOWN)
       = (example_off UNKNOWN)\<lparr>rosout := rosout (example_off UNKNOWN)
                                  @ [(LOG_INFO_THROTTLE, ''START command received'')]\<rparr>"
  using startCallback_unknown_frame_silent [of "example_off UNKNOWN" example_env]
  by (simp add: example_off_fields)

subsection \<open>The mode remembered for the end of manual flight\<close>

lemma sbrmf_setAutoPilotState:
  "state_before_rc_manual_flight (setAutoPilotState env n s) =
     (if n = RC_MANUAL then OFF else state_before_rc_manual_flight s)"
  by (simp add: helper_defs)

lemma sbrmf_start:
  "state_before_rc_manual_flight (snd (start env e s)) = state_before_rc_manual_flight s"
  by (simp add: start_def helper_defs split_def)

lemma sbrmf_hover:
  "state_before_rc_manual_flight (snd (hover env e s)) = state_before_rc_manual_flight s"
  by (simp add: hover_def helper_defs split_def)

lemma sbrmf_land:
  "state_before_rc_manual_flight (snd (land env e s)) = state_before_rc_manual_flight s"
  by (simp add: land_def helper_defs split_def)

lemma sbrmf_publishControlCommand:
  "state_before_rc_manual_flight (publishControlCommand env c s)
     = state_before_rc_manual_flight s"
  by (simp add: helper_defs)

lemma sbrmf_tick_receive:
  "state_before_rc_manual_flight (tick_receive env msg s) = state_before_rc_manual_flight s"
  by (simp add: tick_receive_def helper_defs)

lemma sbrmf_tick_compute:
  "state_before_rc_manual_flight (snd (tick_compute env e s)) = state_before_rc_manual_flight s"
  by (cases "autopilot_state s")
     (simp_all add: tick_compute_def sbrmf_start sbrmf_hover sbrmf_land sbrmf_setAutoPilotState)

lemma sbrmf_stateEstimateCallback:
  "state_before_rc_manual_flight (stateEstimateCallback env msg s)
     = state_before_rc_manual_flight s"
  by (simp add: stateEstimateCallback_stages Let_def sbrmf_publishControlCommand
        sbrmf_tick_compute sbrmf_tick_receive)


lemma sbrmf_dispatch:
  "state_before_rc_manual_flight s = OFF \<Longrightarrow>
   state_before_rc_manual_flight (dispatch env e s) = OFF"
  by (cases e)
     (simp_all add: sbrmf_stateEstimateCallback sbrmf_setAutoPilotState
        lowLevelFeedbackCallback_def controlCommandInputCallback_def startCallback_def
        landCallback_def offCallback_def poseCommandCallback_def velocityCommandCallback_def
        referenceStateCallback_def trajectoryCallback_def ros_log_def Let_def)

lemma sbrmf_spin:
  "state_before_rc_manual_flight s = OFF \<Longrightarrow>
   state_before_rc_manual_flight (spin env es s) = OFF"
  by (induction es arbitrary: s) (simp_all add: sbrmf_dispatch)

text \<open>
  Claim C9. In every state the node reaches from its constructor, by any sequence of
  callbacks, the mode remembered for the end of manual flight is \<open>OFF\<close>. So when the
  low-level feedback stops reporting manual control while the mode is \<open>RC_MANUAL\<close>, the
  mode becomes \<open>OFF\<close>, never \<open>BREAKING\<close>.
\<close>

theorem state_before_rc_manual_flight_always_OFF:
  "state_before_rc_manual_flight (spin env es (AutoPilot_init p a b c)) = OFF
   \<and> (autopilot_state (spin env es (AutoPilot_init p a b c)) = RC_MANUAL
        \<and> \<not> control_mode_is_rc_manual msg
      \<longrightarrow> autopilot_state
            (lowLevelFeedbackCallback msg (spin env es (AutoPilot_init p a b c))) = OFF)"
proof -
  have "state_before_rc_manual_flight (AutoPilot_init p a b c) = OFF"
    by (simp add: AutoPilot_init_def)
  then have "state_before_rc_manual_flight (spin env es (AutoPilot_init p a b c)) = OFF"
    by (rule sbrmf_spin)
  then show ?thesis
    by (simp add: lowLevelFeedbackCallback_def)
qed

theorem state_before_rc_manual_flight_always_OFF_witness:
  "autopilot_state example_rc_manual = RC_MANUAL
   \<and> \<not> control_mode_is_rc_manual \<lparr>control_mode_is_rc_manual = False\<rparr>
   \<and> state_before_rc_manual_flight example_rc_manual = OFF
   \<and> autopilot_state
       (lowLevelFeedbackCallback \<lparr>control_mode_is_rc_manual = False\<rparr> example_rc_manual) = OFF"
proof -
  have e: "spin example_env [EvLowLevelFeedback \<lparr>control_mode_is_rc_manual = True\<rparr>]
             (AutoPilot_init QuadStateEstimate_default Vector3d_Zero Vector3d_Zero 0)
           = example_rc_manual"
    by (simp only: example_rc_manual_def example_init_def)
  show ?thesis
    using state_before_rc_manual_flight_always_OFF
      [of example_env "[EvLowLevelFeedback \<lparr>control_mode_is_rc_manual = True\<rparr>]"
          QuadStateEstimate_default Vector3d_Zero Vector3d_Zero 0
          "\<lparr>control_mode_is_rc_manual = False\<rparr>"]
    unfolding e
    by (simp add: example_rc_manual_fields)
qed

subsection \<open>Hover\<close>

lemma tick_receive_valid:
  "isValid msg \<Longrightarrow>
   tick_receive env msg s =
     s\<lparr>state_estimate_available := True, received_state_est := msg,
       state_predictor := updateWithStateEstimate env msg (state_predictor s)\<rparr>"
  by (simp add: tick_receive_def)

lemma publishControlCommand_frame:
  "autopilot_state (publishControlCommand env c s) = autopilot_state s"
  "first_time_in_new_state (publishControlCommand env c s) = first_time_in_new_state s"
  "reference_state (publishControlCommand env c s) = reference_state s"
  "time_to_ramp_down (publishControlCommand env c s) = time_to_ramp_down s"
  "time_started_ramping_down (publishControlCommand env c s) = time_started_ramping_down s"
  "clock_reads (publishControlCommand env c s) = clock_reads s"
  by (simp_all add: publishControlCommand_def ros_log_def)

lemma hover_tick:
  assumes "autopilot_state s = HOVER" "isValid msg"
  shows "autopilot_state (stateEstimateCallback env msg s) = HOVER"
    and "\<not> first_time_in_new_state (stateEstimateCallback env msg s)"
    and "reference_state (stateEstimateCallback env msg s) =
           (if first_time_in_new_state s
            then TrajectoryPoint_default
                   \<lparr>ref_position := position (tick_predicted env msg s),
                    heading := quaternionToYaw env (orientation (tick_predicted env msg s))\<rparr>
            else reference_state s)"
  using assms
  by (simp_all add: stateEstimateCallback_stages Let_def publishControlCommand_frame
        tick_compute_def tick_predicted_def tick_receive_valid hover_def)

lemma hover_ticks:
  "autopilot_state s = HOVER \<Longrightarrow> \<not> first_time_in_new_state s \<Longrightarrow>
   \<forall>m \<in> set ms. isValid m \<Longrightarrow>
   autopilot_state (ticks env ms s) = HOVER \<and> reference_state (ticks env ms s) = reference_state s"
proof (induction ms arbitrary: s)
  case Nil
  then show ?case by (simp add: ticks_def)
next
  case (Cons m ms)
  let ?s1 = "stateEstimateCallback env m s"
  have v: "isValid m" using Cons.prems by simp
  have "autopilot_state ?s1 = HOVER" "\<not> first_time_in_new_state ?s1"
       "reference_state ?s1 = reference_state s"
    using hover_tick [of s m env] Cons.prems(1,2) v by simp_all
  moreover have "\<forall>m \<in> set ms. isValid m" using Cons.prems by simp
  ultimately have "autopilot_state (ticks env ms ?s1) = HOVER
      \<and> reference_state (ticks env ms ?s1) = reference_state s"
    using Cons.IH [of ?s1] by simp
  then show ?case by (simp add: ticks_def)
qed

text \<open>
  Claim C8. In a run of \<open>HOVER\<close> ticks with valid estimates, the first tick after the mode
  was entered builds the reference state from the estimate it is given (the prediction made
  from the estimate just received): position and heading of that estimate, everything
  else as in a fresh reference point. Every later tick of the run leaves the whole
  reference state, and the mode, as they are.
\<close>

theorem hover_reference_fixed:
  assumes "autopilot_state s = HOVER" and "first_time_in_new_state s"
    and "isValid m" and "\<forall>m' \<in> set ms. isValid m'"
  shows "reference_state (stateEstimateCallback env m s) =
           TrajectoryPoint_default
             \<lparr>ref_position := position (tick_predicted env m s),
              heading := quaternionToYaw env (orientation (tick_predicted env m s))\<rparr>
         \<and> reference_state (ticks env ms (stateEstimateCallback env m s))
             = reference_state (stateEstimateCallback env m s)
         \<and> autopilot_state (ticks env ms (stateEstimateCallback env m s)) = HOVER"
  using hover_tick [OF assms(1,3), of env] hover_ticks [of "stateEstimateCallback env m s" ms env]
    assms(2,4)
  by simp


theorem hover_reference_fixed_witness:
  "autopilot_state example_hover_entered = HOVER
   \<and> first_time_in_new_state example_hover_entered
   \<and> isValid (example_estimate WORLD True)
   \<and> isValid (example_estimate VISION True)
   \<and> reference_state
        (ticks example_env [example_estimate WORLD True, example_estimate VISION True]
           example_hovering)
       = reference_state example_hovering
   \<and> autopilot_state
        (ticks example_env [example_estimate WORLD True, example_estimate VISION True]
           example_hovering)
       = HOVER"
proof -
  have v: "isValid (example_estimate WORLD True)" "isValid (example_estimate VISION True)"
    by (simp_all add: example_estimate_def)
  show ?thesis
    using hover_reference_fixed
      [of example_hover_entered "example_estimate WORLD True"
          "[example_estimate WORLD True, example_estimate VISION True]" example_env]
    unfolding example_hovering_def [symmetric]
    by (simp add: example_hover_entered_fields v)
qed

subsection \<open>Landing: the ramp-down of the thrust\<close>

lemma land_ramping:
  assumes "\<not> first_time_in_new_state s" "time_to_ramp_down s"
  shows "control_command_pub (snd (land env e s)) = control_command_pub s"
    and "initial_drop_thrust (snd (land env e s)) = initial_drop_thrust s"
    and "autopilot_state (snd (land env e s)) =
           (if ramp_thrust env (Suc (clock_reads s)) s \<le> 0 then OFF else autopilot_state s)"
    and "collective_thrust (fst (land env e s)) =
           (if ramp_thrust env (Suc (clock_reads s)) s \<le> 0 then 0
            else ramp_thrust env (Suc (clock_reads s)) s)"
    and "first_time_in_new_state (snd (land env e s)) \<longleftrightarrow>
           ramp_thrust env (Suc (clock_reads s)) s \<le> 0"
    and "time_to_ramp_down (snd (land env e s))"
    and "time_started_ramping_down (snd (land env e s)) = time_started_ramping_down s"
    and "clock_reads (snd (land env e s)) =
           (if ramp_thrust env (Suc (clock_reads s)) s \<le> 0
            then clock_reads s + 3 else clock_reads s + 2)"
    and "ramp_thrust env (Suc (clock_reads s)) s \<le> 0 \<Longrightarrow> \<not> armed (fst (land env e s))"
    and "ramp_thrust env (Suc (clock_reads s)) s \<le> 0 \<Longrightarrow>
           bodyrates (fst (land env e s)) = Vector3d_Zero"
    and "ramp_thrust env (Suc (clock_reads s)) s \<le> 0 \<Longrightarrow>
           control_mode (fst (land env e s)) = zero_control_mode env"
  using assms
  by (simp_all add: land_def ramp_thrust_def helper_defs split_def)

lemma ramp_thrust_frame:
  "ramp_thrust env k (s\<lparr>state_estimate_available := a\<rparr>) = ramp_thrust env k s"
  "ramp_thrust env k (s\<lparr>received_state_est := b\<rparr>) = ramp_thrust env k s"
  "ramp_thrust env k (s\<lparr>state_predictor := c\<rparr>) = ramp_thrust env k s"
  "ramp_thrust env k (s\<lparr>clock_reads := d\<rparr>) = ramp_thrust env k s"
  by (simp_all add: ramp_thrust_def)

lemma publishControlCommand_pub:
  "control_command_pub (publishControlCommand env c s) =
     control_command_pub s @ (if control_mode c = NONE then [] else [c])"
  "initial_drop_thrust (publishControlCommand env c s) =
     (if control_mode c = NONE then initial_drop_thrust s else collective_thrust c)"
  by (simp_all add: publishControlCommand_def ros_log_def)

lemmas land_tick_simps =
  stateEstimateCallback_stages Let_def tick_compute_def tick_receive_valid
  publishControlCommand_frame publishControlCommand_pub land_ramping ramp_thrust_frame
  published_since_def

text \<open>One tick of a node that is ramping down.\<close>

lemma ramping_tick_state:
  assumes "autopilot_state s = LAND" "\<not> first_time_in_new_state s" "time_to_ramp_down s"
    and "isValid msg"
  shows "autopilot_state (stateEstimateCallback env msg s) =
           (if ramp_thrust env (clock_reads s + 2) s \<le> 0 then OFF else LAND)"
    and "first_time_in_new_state (stateEstimateCallback env msg s) \<longleftrightarrow>
           ramp_thrust env (clock_reads s + 2) s \<le> 0"
    and "time_to_ramp_down (stateEstimateCallback env msg s)"
    and "time_started_ramping_down (stateEstimateCallback env msg s)
           = time_started_ramping_down s"
    and "clock_reads (stateEstimateCallback env msg s) =
           (if ramp_thrust env (clock_reads s + 2) s \<le> 0
            then clock_reads s + 4 else clock_reads s + 3)"
  using assms by (simp_all add: land_tick_simps)

lemma ramping_tick_published:
  assumes "autopilot_state s = LAND" "\<not> first_time_in_new_state s" "time_to_ramp_down s"
    and "isValid msg"
  shows "control_command_pub (stateEstimateCallback env msg s) =
           control_command_pub s @ published_since s (stateEstimateCallback env msg s)"
    and "length (published_since s (stateEstimateCallback env msg s)) \<le> 1"
    and "\<forall>c \<in> set (published_since s (stateEstimateCallback env msg s)).
           collective_thrust c =
             (if ramp_thrust env (clock_reads s + 2) s \<le> 0 then 0
              else ramp_thrust env (clock_reads s + 2) s)"
    and "initial_drop_thrust (stateEstimateCallback env msg s) =
           (if published_since s (stateEstimateCallback env msg s) = []
            then initial_drop_thrust s
            else if ramp_thrust env (clock_reads s + 2) s \<le> 0 then 0
            else ramp_thrust env (clock_reads s + 2) s)"
    and "ramp_thrust env (clock_reads s + 2) s \<le> 0 \<Longrightarrow>
         \<forall>c \<in> set (published_since s (stateEstimateCallback env msg s)).
           \<not> armed c \<and> bodyrates c = Vector3d_Zero"
    and "ramp_thrust env (clock_reads s + 2) s \<le> 0 \<Longrightarrow> zero_control_mode env \<noteq> NONE \<Longrightarrow>
         published_since s (stateEstimateCallback env msg s) \<noteq> []"
  using assms by (simp_all add: land_tick_simps)


lemma tick_receive_off:
  "autopilot_state s = OFF \<Longrightarrow>
   tick_receive env msg s =
     s\<lparr>state_estimate_available := isValid msg, received_state_est := msg,
       state_predictor := updateWithStateEstimate env msg (state_predictor s)\<rparr>"
  by (cases "isValid msg") (simp_all add: tick_receive_def Let_def)

lemma off_tick:
  assumes "autopilot_state s = OFF"
  shows "autopilot_state (stateEstimateCallback env msg s) = OFF"
    and "\<exists>L. control_command_pub (stateEstimateCallback env msg s) = control_command_pub s @ L
            \<and> (\<forall>c \<in> set L. collective_thrust c = 0)"
  using assms
  by (simp_all add: stateEstimateCallback_stages Let_def tick_compute_def tick_receive_off
        publishControlCommand_frame publishControlCommand_pub zero_def)

lemma ticks_Cons: "ticks env (m # ms) s = ticks env ms (stateEstimateCallback env m s)"
  by (simp add: ticks_def)

lemma off_ticks:
  "autopilot_state s = OFF \<Longrightarrow>
   \<exists>L. control_command_pub (ticks env ms s) = control_command_pub s @ L
       \<and> (\<forall>c \<in> set L. collective_thrust c = 0)
       \<and> autopilot_state (ticks env ms s) = OFF"
proof (induction ms arbitrary: s)
  case Nil
  then show ?case by (simp add: ticks_def)
next
  case (Cons m ms)
  let ?s1 = "stateEstimateCallback env m s"
  from off_tick [OF Cons.prems, of env m]
  obtain L1 where 1: "autopilot_state ?s1 = OFF"
      "control_command_pub ?s1 = control_command_pub s @ L1"
      "\<forall>c \<in> set L1. collective_thrust c = 0"
    by blast
  from Cons.IH [OF 1(1)]
  obtain L2 where 2: "control_command_pub (ticks env ms ?s1) = control_command_pub ?s1 @ L2"
      "\<forall>c \<in> set L2. collective_thrust c = 0" "autopilot_state (ticks env ms ?s1) = OFF"
    by blast
  have "control_command_pub (ticks env (m # ms) s) = control_command_pub s @ (L1 @ L2)"
    using 1(2) 2(1) by (simp add: ticks_Cons)
  moreover have "\<forall>c \<in> set (L1 @ L2). collective_thrust c = 0"
    using 1(3) 2(2) by auto
  moreover have "autopilot_state (ticks env (m # ms) s) = OFF"
    using 2(3) by (simp add: ticks_Cons)
  ultimately show ?case by blast
qed

text \<open>The three outcomes of a tick while ramping down.\<close>

lemma ramping_tick_cases:
  assumes T: "0 < propeller_ramp_down_timeout env" and clk: "mono (clock env)"
    and r: "ramping env s" and v: "isValid msg"
  obtains
    (off) L where "autopilot_state (stateEstimateCallback env msg s) = OFF"
      "control_command_pub (stateEstimateCallback env msg s) = control_command_pub s @ L"
      "\<forall>c \<in> set L. collective_thrust c = 0"
  | (silent) "ramping env (stateEstimateCallback env msg s)"
      "control_command_pub (stateEstimateCallback env msg s) = control_command_pub s"
      "initial_drop_thrust (stateEstimateCallback env msg s) = initial_drop_thrust s"
  | (published) c where "ramping env (stateEstimateCallback env msg s)"
      "control_command_pub (stateEstimateCallback env msg s) = control_command_pub s @ [c]"
      "initial_drop_thrust (stateEstimateCallback env msg s) = collective_thrust c"
      "0 < collective_thrust c"
      "0 \<le> initial_drop_thrust s \<Longrightarrow> collective_thrust c \<le> initial_drop_thrust s"
proof -
  let ?s' = "stateEstimateCallback env msg s"
  let ?x = "ramp_thrust env (clock_reads s + 2) s"
  let ?L = "published_since s ?s'"
  have a: "autopilot_state s = LAND" "\<not> first_time_in_new_state s" "time_to_ramp_down s"
    and past: "time_started_ramping_down s \<le> clock env (clock_reads s)"
    using r by (simp_all add: ramping_def)
  note st = ramping_tick_state [OF a v, of env]
  note pb = ramping_tick_published [OF a v, of env]
  show thesis
  proof (cases "?x \<le> 0")
    case True
    have "autopilot_state ?s' = OFF" using st(1) True by simp
    moreover have "\<forall>c \<in> set ?L. collective_thrust c = 0" using pb(3) True by simp
    ultimately show thesis using pb(1) off by blast
  next
    case False
    have "clock env (clock_reads s) \<le> clock env (clock_reads s + 3)"
      using clk by (simp add: monoD)
    then have r': "ramping env ?s'"
      using st False past a by (simp add: ramping_def)
    show thesis
    proof (cases ?L)
      case Nil
      then show thesis using r' pb(1) pb(4) silent by simp
    next
      case (Cons c cs)
      then have cs: "cs = []" using pb(2) by simp
      have c: "collective_thrust c = ?x" using pb(3) Cons False by simp
      have d: "initial_drop_thrust ?s' = collective_thrust c"
        using pb(4) Cons False c by simp
      have le: "collective_thrust c \<le> initial_drop_thrust s" if "0 \<le> initial_drop_thrust s"
      proof -
        have "clock env (clock_reads s) \<le> clock env (clock_reads s + 2)"
          using clk by (simp add: monoD)
        then have "0 \<le> clock env (clock_reads s + 2) - time_started_ramping_down s"
          using past by simp
        then have "0 \<le> initial_drop_thrust s / propeller_ramp_down_timeout env
                      * (clock env (clock_reads s + 2) - time_started_ramping_down s)"
          using that T by simp
        then show ?thesis using c by (simp add: ramp_thrust_def)
      qed
      show thesis
        using published [of c] r' pb(1) Cons cs d c False le by simp
    qed
  qed
qed


lemma zero_thrusts_sorted:
  "\<forall>c \<in> set L. collective_thrust c = 0 \<Longrightarrow>
   sorted_wrt (\<lambda>a b. b \<le> a) (map collective_thrust L)"
  by (induction L) auto

lemma ramping_ticks_bounded:
  assumes T: "0 < propeller_ramp_down_timeout env" and clk: "mono (clock env)"
  shows "ramping env s \<Longrightarrow> 0 \<le> initial_drop_thrust s \<Longrightarrow> \<forall>m \<in> set ms. isValid m \<Longrightarrow>
         \<exists>L. control_command_pub (ticks env ms s) = control_command_pub s @ L
            \<and> sorted_wrt (\<lambda>a b. b \<le> a) (map collective_thrust L)
            \<and> (\<forall>c \<in> set L. collective_thrust c \<le> initial_drop_thrust s)
            \<and> autopilot_state (ticks env ms s) \<in> {LAND, OFF}"
proof (induction ms arbitrary: s)
  case Nil
  then show ?case by (simp add: ticks_def ramping_def)
next
  case (Cons m ms)
  let ?s1 = "stateEstimateCallback env m s"
  have v: "isValid m" and vs: "\<forall>m \<in> set ms. isValid m" using Cons.prems(3) by simp_all
  from T clk Cons.prems(1) v show ?case
  proof (cases rule: ramping_tick_cases)
    case (off L1)
    from off_ticks [OF off(1), of env ms]
    obtain L2 where 2: "control_command_pub (ticks env ms ?s1) = control_command_pub ?s1 @ L2"
        "\<forall>c \<in> set L2. collective_thrust c = 0" "autopilot_state (ticks env ms ?s1) = OFF"
      by blast
    have "control_command_pub (ticks env (m # ms) s) = control_command_pub s @ (L1 @ L2)"
      using off(2) 2(1) by (simp add: ticks_Cons)
    moreover have z: "\<forall>c \<in> set (L1 @ L2). collective_thrust c = 0"
      using off(3) 2(2) by auto
    then have "sorted_wrt (\<lambda>a b. b \<le> a) (map collective_thrust (L1 @ L2))"
      by (rule zero_thrusts_sorted)
    moreover have "\<forall>c \<in> set (L1 @ L2). collective_thrust c \<le> initial_drop_thrust s"
      using z Cons.prems(2) by simp
    moreover have "autopilot_state (ticks env (m # ms) s) \<in> {LAND, OFF}"
      using 2(3) by (simp add: ticks_Cons)
    ultimately show ?thesis by blast
  next
    case silent
    from Cons.IH [OF silent(1) _ vs] Cons.prems(2) silent(3)
    obtain L2 where 2: "control_command_pub (ticks env ms ?s1) = control_command_pub ?s1 @ L2"
        "sorted_wrt (\<lambda>a b. b \<le> a) (map collective_thrust L2)"
        "\<forall>c \<in> set L2. collective_thrust c \<le> initial_drop_thrust s"
        "autopilot_state (ticks env ms ?s1) \<in> {LAND, OFF}"
      by auto
    then show ?thesis using silent(2) by (auto simp: ticks_Cons)
  next
    case (published c)
    have le: "collective_thrust c \<le> initial_drop_thrust s"
      using published(5) Cons.prems(2) by simp
    from Cons.IH [OF published(1) _ vs] published(3,4)
    obtain L2 where 2: "control_command_pub (ticks env ms ?s1) = control_command_pub ?s1 @ L2"
        "sorted_wrt (\<lambda>a b. b \<le> a) (map collective_thrust L2)"
        "\<forall>c' \<in> set L2. collective_thrust c' \<le> collective_thrust c"
        "autopilot_state (ticks env ms ?s1) \<in> {LAND, OFF}"
      by auto
    have "control_command_pub (ticks env (m # ms) s) = control_command_pub s @ (c # L2)"
      using published(2) 2(1) by (simp add: ticks_Cons)
    moreover have "sorted_wrt (\<lambda>a b. b \<le> a) (map collective_thrust (c # L2))"
      using 2(2,3) by simp
    moreover have "\<forall>c' \<in> set (c # L2). collective_thrust c' \<le> initial_drop_thrust s"
      using 2(3) le by auto
    moreover have "autopilot_state (ticks env (m # ms) s) \<in> {LAND, OFF}"
      using 2(4) by (simp add: ticks_Cons)
    ultimately show ?thesis by blast
  qed
qed

lemma ramping_ticks_sorted:
  assumes T: "0 < propeller_ramp_down_timeout env" and clk: "mono (clock env)"
  shows "ramping env s \<Longrightarrow> \<forall>m \<in> set ms. isValid m \<Longrightarrow>
         \<exists>L. control_command_pub (ticks env ms s) = control_command_pub s @ L
            \<and> sorted_wrt (\<lambda>a b. b \<le> a) (map collective_thrust L)
            \<and> autopilot_state (ticks env ms s) \<in> {LAND, OFF}"
proof (induction ms arbitrary: s)
  case Nil
  then show ?case by (simp add: ticks_def ramping_def)
next
  case (Cons m ms)
  let ?s1 = "stateEstimateCallback env m s"
  have v: "isValid m" and vs: "\<forall>m \<in> set ms. isValid m" using Cons.prems(2) by simp_all
  from T clk Cons.prems(1) v show ?case
  proof (cases rule: ramping_tick_cases)
    case (off L1)
    from off_ticks [OF off(1), of env ms]
    obtain L2 where 2: "control_command_pub (ticks env ms ?s1) = control_command_pub ?s1 @ L2"
        "\<forall>c \<in> set L2. collective_thrust c = 0" "autopilot_state (ticks env ms ?s1) = OFF"
      by blast
    have "control_command_pub (ticks env (m # ms) s) = control_command_pub s @ (L1 @ L2)"
      using off(2) 2(1) by (simp add: ticks_Cons)
    moreover have z: "\<forall>c \<in> set (L1 @ L2). collective_thrust c = 0"
      using off(3) 2(2) by auto
    then have "sorted_wrt (\<lambda>a b. b \<le> a) (map collective_thrust (L1 @ L2))"
      by (rule zero_thrusts_sorted)
    moreover have "autopilot_state (ticks env (m # ms) s) \<in> {LAND, OFF}"
      using 2(3) by (simp add: ticks_Cons)
    ultimately show ?thesis by blast
  next
    case silent
    from Cons.IH [OF silent(1) vs]
    show ?thesis using silent(2) by (auto simp: ticks_Cons)
  next
    case (published c)
    from ramping_ticks_bounded [OF T clk published(1) _ vs] published(3,4)
    obtain L2 where 2: "control_command_pub (ticks env ms ?s1) = control_command_pub ?s1 @ L2"
        "sorted_wrt (\<lambda>a b. b \<le> a) (map collective_thrust L2)"
        "\<forall>c' \<in> set L2. collective_thrust c' \<le> collective_thrust c"
        "autopilot_state (ticks env ms ?s1) \<in> {LAND, OFF}"
      by auto
    have "control_command_pub (ticks env (m # ms) s) = control_command_pub s @ (c # L2)"
      using published(2) 2(1) by (simp add: ticks_Cons)
    moreover have "sorted_wrt (\<lambda>a b. b \<le> a) (map collective_thrust (c # L2))"
      using 2(2,3) by simp
    moreover have "autopilot_state (ticks env (m # ms) s) \<in> {LAND, OFF}"
      using 2(4) by (simp add: ticks_Cons)
    ultimately show ?thesis by blast
  qed
qed

text \<open>
  The latch time never lies after the clock: every part of every callback keeps this, as
  long as the clock does not run backwards. So a node that is reached from the constructor
  and is in \<open>LAND\<close> with the latch set, its first tick there done, is ramping down.
\<close>

lemma clock_Suc:
  assumes "mono (clock env)"
  shows "clock env n \<le> clock env (Suc n)"
    and "x \<le> clock env n \<Longrightarrow> x \<le> clock env (Suc n)"
    and "x \<le> clock env n \<Longrightarrow> x \<le> clock env (Suc (Suc n))"
proof -
  show 1: "clock env n \<le> clock env (Suc n)" for n
    using assms by (simp add: monoD)
  show 2: "x \<le> clock env n \<Longrightarrow> x \<le> clock env (Suc n)" for n
    using 1 [of n] by simp
  show "x \<le> clock env n \<Longrightarrow> x \<le> clock env (Suc (Suc n))"
    using 2 [of n] 2 [of "Suc n"] by simp
qed

lemma latch_past_setAutoPilotState:
  "mono (clock env) \<Longrightarrow> latch_past env s \<Longrightarrow> latch_past env (setAutoPilotState env n s)"
  by (simp add: latch_past_def helper_defs clock_Suc)

lemma latch_past_land_enter:
  "latch_past env s \<Longrightarrow> latch_past env (land_enter env e s)"
  by (simp add: latch_past_def land_enter_def)

lemma latch_past_land_reference:
  "mono (clock env) \<Longrightarrow> latch_past env s \<Longrightarrow> latch_past env (land_reference env s)"
  by (simp add: latch_past_def land_reference_def helper_defs clock_Suc)

lemma latch_past_land_latch:
  "mono (clock env) \<Longrightarrow> latch_past env s \<Longrightarrow> latch_past env (land_latch env e s)"
  by (simp add: latch_past_def land_latch_def helper_defs clock_Suc)

lemma latch_past_land_ramp:
  "mono (clock env) \<Longrightarrow> latch_past env s \<Longrightarrow> latch_past env (snd (land_ramp env c s))"
  by (simp add: latch_past_def land_ramp_def helper_defs clock_Suc)

lemma latch_past_land:
  assumes "mono (clock env)" "latch_past env s"
  shows "latch_past env (snd (land env e s))"
proof -
  let ?s3 = "land_reference env (land_enter env e s)"
  let ?r = "land_ramp env (base_controller_run env e (reference_state ?s3)) (land_latch env e ?s3)"
  have "latch_past env (snd ?r)"
    using assms
    by (intro latch_past_land_ramp latch_past_land_latch latch_past_land_reference
          latch_past_land_enter)
  then show ?thesis
    using latch_past_setAutoPilotState [OF assms(1), of "snd ?r" OFF]
    by (simp add: land_stages Let_def)
qed

lemma latch_past_start:
  assumes "mono (clock env)" "latch_past env s"
  shows "latch_past env (snd (start env e s))"
proof -
  have "time_to_ramp_down (snd (start env e s)) = time_to_ramp_down s"
    "time_started_ramping_down (snd (start env e s)) = time_started_ramping_down s"
    "clock_reads s \<le> clock_reads (snd (start env e s))"
    by (simp_all add: start_def helper_defs split_def)
  then show ?thesis
    using assms monoD [OF assms(1), of "clock_reads s" "clock_reads (snd (start env e s))"]
    by (auto simp: latch_past_def)
qed

lemma latch_past_hover:
  "latch_past env s \<Longrightarrow> latch_past env (snd (hover env e s))"
  by (simp add: latch_past_def hover_def)

lemma latch_past_publishControlCommand:
  "latch_past env s \<Longrightarrow> latch_past env (publishControlCommand env c s)"
  by (simp add: latch_past_def publishControlCommand_def ros_log_def)

lemma latch_past_tick_receive:
  "mono (clock env) \<Longrightarrow> latch_past env s \<Longrightarrow> latch_past env (tick_receive env msg s)"
  by (simp add: latch_past_def tick_receive_def helper_defs clock_Suc)

lemma latch_past_tick_compute:
  assumes "mono (clock env)" "latch_past env s"
  shows "latch_past env (snd (tick_compute env e s))"
  using assms
  by (cases "autopilot_state s")
     (simp_all add: tick_compute_def latch_past_start latch_past_hover latch_past_land
        latch_past_setAutoPilotState)

lemma latch_past_read:
  "mono (clock env) \<Longrightarrow> latch_past env s \<Longrightarrow>
   latch_past env (s\<lparr>clock_reads := Suc (clock_reads s)\<rparr>)"
  by (simp add: latch_past_def clock_Suc)

lemma latch_past_stateEstimateCallback:
  assumes "mono (clock env)" "latch_past env s"
  shows "latch_past env (stateEstimateCallback env msg s)"
proof -
  let ?s4 = "(tick_receive env msg s)\<lparr>clock_reads := Suc (clock_reads (tick_receive env msg s))\<rparr>"
  have "latch_past env ?s4"
    using assms by (intro latch_past_read latch_past_tick_receive)
  then have "latch_past env (snd (tick_compute env e ?s4))" for e
    using assms(1) by (rule latch_past_tick_compute [rotated])
  then show ?thesis
    by (simp add: stateEstimateCallback_stages Let_def latch_past_publishControlCommand)
qed

lemma latch_past_dispatch:
  assumes "mono (clock env)" "latch_past env s"
  shows "latch_past env (dispatch env e s)"
proof (cases e)
  case (EvStateEstimate msg)
  then show ?thesis using assms by (simp add: latch_past_stateEstimateCallback)
next
  case (EvLowLevelFeedback msg)
  then show ?thesis using assms(2) by (simp add: latch_past_def lowLevelFeedbackCallback_def)
next
  case (EvControlCommandInput msg)
  then show ?thesis using assms(2) by (simp add: latch_past_def controlCommandInputCallback_def)
next
  case EvStart
  have "latch_past env (ros_log l x s)" for l x
    using assms(2) by (simp add: latch_past_def ros_log_def)
  then have "latch_past env (ros_log l' x' (ros_log l x s))" for l x l' x'
    by (simp add: latch_past_def ros_log_def)
  then show ?thesis
    using EvStart assms \<open>\<And>l x. latch_past env (ros_log l x s)\<close>
    by (simp add: startCallback_def Let_def latch_past_setAutoPilotState)
next
  case EvLand
  have "latch_past env (ros_log l x s)" for l x
    using assms(2) by (simp add: latch_past_def ros_log_def)
  then have "latch_past env (ros_log l' x' (ros_log l x s))" for l x l' x'
    by (simp add: latch_past_def ros_log_def)
  then show ?thesis
    using EvLand assms \<open>\<And>l x. latch_past env (ros_log l x s)\<close>
    by (simp add: landCallback_def Let_def latch_past_setAutoPilotState)
next
  case EvOff
  have "latch_past env (ros_log l x s)" for l x
    using assms(2) by (simp add: latch_past_def ros_log_def)
  then have "latch_past env (setAutoPilotState env OFF (ros_log l x s))" for l x
    using assms(1) by (simp add: latch_past_setAutoPilotState)
  then have "latch_past env ((setAutoPilotState env OFF (ros_log l x s))
                \<lparr>state_before_rc_manual_flight := OFF\<rparr>)" for l x
    by (simp add: latch_past_def)
  then show ?thesis
    using EvOff assms(2) by (simp add: offCallback_def Let_def)
qed (use assms(2) in \<open>simp_all add: poseCommandCallback_def velocityCommandCallback_def
        referenceStateCallback_def trajectoryCallback_def\<close>)

lemma latch_past_spin:
  "mono (clock env) \<Longrightarrow> latch_past env s \<Longrightarrow> latch_past env (spin env es s)"
  by (induction es arbitrary: s) (simp_all add: latch_past_dispatch del: dispatch.simps)

lemma reached_ramping:
  assumes "mono (clock env)"
    and "autopilot_state (spin env es (AutoPilot_init p a b c)) = LAND"
    and "\<not> first_time_in_new_state (spin env es (AutoPilot_init p a b c))"
    and "time_to_ramp_down (spin env es (AutoPilot_init p a b c))"
  shows "ramping env (spin env es (AutoPilot_init p a b c))"
proof -
  have "latch_past env (AutoPilot_init p a b c)"
    by (simp add: latch_past_def AutoPilot_init_def)
  then have "latch_past env (spin env es (AutoPilot_init p a b c))"
    using assms(1) by (intro latch_past_spin)
  then show ?thesis
    using assms(2-4) by (simp add: ramping_def latch_past_def)
qed


text \<open>Runs of ticks from any node that is ramping down, reached or not.\<close>

lemma ramping_run:
  assumes "0 < propeller_ramp_down_timeout env" and "mono (clock env)"
    and "ramping env s" and "\<forall>m \<in> set ms. isValid m"
  shows "sorted_wrt (\<lambda>a b. b \<le> a)
           (map collective_thrust (published_since s (ticks env ms s)))"
    and "0 \<le> initial_drop_thrust s \<Longrightarrow>
         \<forall>c \<in> set (published_since s (ticks env ms s)).
           collective_thrust c \<le> initial_drop_thrust s"
    and "autopilot_state (ticks env ms s) \<in> {LAND, OFF}"
proof -
  from ramping_ticks_sorted [OF assms]
  obtain L where L: "control_command_pub (ticks env ms s) = control_command_pub s @ L"
      "sorted_wrt (\<lambda>a b. b \<le> a) (map collective_thrust L)"
      "autopilot_state (ticks env ms s) \<in> {LAND, OFF}"
    by blast
  show "sorted_wrt (\<lambda>a b. b \<le> a)
          (map collective_thrust (published_since s (ticks env ms s)))"
    using L(1,2) by (simp add: published_since_def)
  show "autopilot_state (ticks env ms s) \<in> {LAND, OFF}"
    by (rule L(3))
  show "\<forall>c \<in> set (published_since s (ticks env ms s)).
          collective_thrust c \<le> initial_drop_thrust s"
    if "0 \<le> initial_drop_thrust s"
  proof -
    from ramping_ticks_bounded [OF assms(1,2,3) that assms(4)]
    obtain K where K: "control_command_pub (ticks env ms s) = control_command_pub s @ K"
        "\<forall>c \<in> set K. collective_thrust c \<le> initial_drop_thrust s"
      by blast
    then show ?thesis by (simp add: published_since_def)
  qed
qed

text \<open>The tick that ends the ramp publishes one command, zeroed, unless \<^verbatim>\<open>zero()\<close>
  sets the control mode \<open>NONE\<close>.\<close>

lemma ramping_tick_end:
  assumes "ramping env s" and "isValid m"
    and "ramp_thrust env (clock_reads s + 2) s \<le> 0"
  shows "autopilot_state (stateEstimateCallback env m s) = OFF"
    and "\<forall>c \<in> set (published_since s (stateEstimateCallback env m s)).
           collective_thrust c = 0 \<and> \<not> armed c \<and> bodyrates c = Vector3d_Zero"
    and "zero_control_mode env \<noteq> NONE \<Longrightarrow>
         \<exists>c. published_since s (stateEstimateCallback env m s) = [c]
            \<and> collective_thrust c = 0 \<and> \<not> armed c \<and> bodyrates c = Vector3d_Zero"
proof -
  let ?L = "published_since s (stateEstimateCallback env m s)"
  have a: "autopilot_state s = LAND" "\<not> first_time_in_new_state s" "time_to_ramp_down s"
    using assms(1) by (simp_all add: ramping_def)
  note st = ramping_tick_state [OF a assms(2), of env]
  note pb = ramping_tick_published [OF a assms(2), of env]
  show "autopilot_state (stateEstimateCallback env m s) = OFF"
    using st(1) assms(3) by simp
  show z: "\<forall>c \<in> set ?L. collective_thrust c = 0 \<and> \<not> armed c \<and> bodyrates c = Vector3d_Zero"
    using pb(3) pb(5) [OF assms(3)] assms(3) by simp
  show "\<exists>c. ?L = [c] \<and> collective_thrust c = 0 \<and> \<not> armed c \<and> bodyrates c = Vector3d_Zero"
    if "zero_control_mode env \<noteq> NONE"
  proof (cases ?L)
    case Nil
    then show ?thesis using pb(6) [OF assms(3) that] by simp
  next
    case (Cons c cs)
    then have "cs = []" using pb(2) by simp
    then show ?thesis using Cons z by simp
  qed
qed

lemma ramping_tick_on:
  assumes "ramping env s" and "isValid m"
    and "\<not> ramp_thrust env (clock_reads s + 2) s \<le> 0"
  shows "autopilot_state (stateEstimateCallback env m s) = LAND"
    and "\<forall>c \<in> set (published_since s (stateEstimateCallback env m s)).
           collective_thrust c = ramp_thrust env (clock_reads s + 2) s"
proof -
  have a: "autopilot_state s = LAND" "\<not> first_time_in_new_state s" "time_to_ramp_down s"
    using assms(1) by (simp_all add: ramping_def)
  show "autopilot_state (stateEstimateCallback env m s) = LAND"
    using ramping_tick_state(1) [OF a assms(2), of env] assms(3) by simp
  show "\<forall>c \<in> set (published_since s (stateEstimateCallback env m s)).
          collective_thrust c = ramp_thrust env (clock_reads s + 2) s"
    using ramping_tick_published(3) [OF a assms(2), of env] assms(3) by simp
qed

text \<open>
  Claim C3, as the code has it. The claim is stated for every run of \<open>LAND\<close> ticks after
  the latch has been set; it fails when the ramp-down time is negative or the clock runs
  backwards, and a zeroed command can only be emitted when \<^verbatim>\<open>zero()\<close> sets a control
  mode other than \<open>NONE\<close> (see the counterexample below). With a positive ramp-down time
  and a clock that never runs backwards it holds, in exact arithmetic: take a node reached
  from the constructor, in \<open>LAND\<close> with its first tick there done and the latch set. In
  every run of ticks with valid estimates the thrusts of the commands published from then
  on never increase from one command to the next and, when the thrust issued last before
  the run is not negative, never exceed it; the mode stays \<open>LAND\<close> or becomes \<open>OFF\<close>. A
  tick of this node whose ramp value is at most zero switches to \<open>OFF\<close>, and what it
  publishes is zeroed (no thrust, disarmed, zero body rates); it publishes exactly one such
  command when \<^verbatim>\<open>zero()\<close> sets a control mode other than \<open>NONE\<close>. A tick whose ramp
  value is positive stays in \<open>LAND\<close>, and what it publishes carries the ramp value as its
  thrust.
\<close>

theorem ramp_down_thrust_non_increasing:
  assumes "0 < propeller_ramp_down_timeout env" and "mono (clock env)"
    and "s = spin env es (AutoPilot_init p a b c)"
    and "autopilot_state s = LAND" and "\<not> first_time_in_new_state s"
    and "time_to_ramp_down s"
    and "\<forall>m \<in> set ms. isValid m"
  shows "sorted_wrt (\<lambda>a b. b \<le> a)
           (map collective_thrust (published_since s (ticks env ms s)))
         \<and> (0 \<le> initial_drop_thrust s \<longrightarrow>
              (\<forall>c \<in> set (published_since s (ticks env ms s)).
                 collective_thrust c \<le> initial_drop_thrust s))
         \<and> autopilot_state (ticks env ms s) \<in> {LAND, OFF}
         \<and> (\<forall>m. isValid m \<longrightarrow>
              (if ramp_thrust env (clock_reads s + 2) s \<le> 0
               then autopilot_state (stateEstimateCallback env m s) = OFF
                    \<and> (\<forall>c \<in> set (published_since s (stateEstimateCallback env m s)).
                          collective_thrust c = 0 \<and> \<not> armed c \<and> bodyrates c = Vector3d_Zero)
                    \<and> (zero_control_mode env \<noteq> NONE \<longrightarrow>
                          (\<exists>c. published_since s (stateEstimateCallback env m s) = [c]
                              \<and> collective_thrust c = 0 \<and> \<not> armed c
                              \<and> bodyrates c = Vector3d_Zero))
               else autopilot_state (stateEstimateCallback env m s) = LAND
                    \<and> (\<forall>c \<in> set (published_since s (stateEstimateCallback env m s)).
                          collective_thrust c = ramp_thrust env (clock_reads s + 2) s)))"
proof -
  have r: "ramping env s"
    using reached_ramping [OF assms(2), of es p a b c] assms(3-6) by simp
  note run = ramping_run [OF assms(1,2) r assms(7)]
  have 4: "if ramp_thrust env (clock_reads s + 2) s \<le> 0
           then autopilot_state (stateEstimateCallback env m s) = OFF
                \<and> (\<forall>c \<in> set (published_since s (stateEstimateCallback env m s)).
                      collective_thrust c = 0 \<and> \<not> armed c \<and> bodyrates c = Vector3d_Zero)
                \<and> (zero_control_mode env \<noteq> NONE \<longrightarrow>
                      (\<exists>c. published_since s (stateEstimateCallback env m s) = [c]
                          \<and> collective_thrust c = 0 \<and> \<not> armed c
                          \<and> bodyrates c = Vector3d_Zero))
           else autopilot_state (stateEstimateCallback env m s) = LAND
                \<and> (\<forall>c \<in> set (published_since s (stateEstimateCallback env m s)).
                      collective_thrust c = ramp_thrust env (clock_reads s + 2) s)"
    if v: "isValid m" for m
  proof (cases "ramp_thrust env (clock_reads s + 2) s \<le> 0")
    case True
    then show ?thesis using ramping_tick_end [OF r v True] by simp
  next
    case False
    then show ?thesis using ramping_tick_on [OF r v False] by simp
  qed
  show ?thesis using run 4 by blast
qed

theorem ramp_down_thrust_non_increasing_witness:
  "0 < propeller_ramp_down_timeout example_env
   \<and> mono (clock example_env)
   \<and> autopilot_state example_landing = LAND
   \<and> \<not> first_time_in_new_state example_landing
   \<and> time_to_ramp_down example_landing
   \<and> isValid (example_estimate WORLD True)
   \<and> sorted_wrt (\<lambda>a b. b \<le> a)
        (map collective_thrust
           (published_since example_landing
              (ticks example_env
                 [example_estimate WORLD True, example_estimate WORLD True,
                  example_estimate WORLD True, example_estimate WORLD True,
                  example_estimate WORLD True] example_landing)))
   \<and> map collective_thrust
        (published_since example_landing
           (ticks example_env
              [example_estimate WORLD True, example_estimate WORLD True,
               example_estimate WORLD True, example_estimate WORLD True,
               example_estimate WORLD True] example_landing))
       = [45 / 8, 405 / 128, 1215 / 1024, 3645 / 16384, 0]
   \<and> autopilot_state example_ramp_end = LAND
   \<and> \<not> first_time_in_new_state example_ramp_end
   \<and> time_to_ramp_down example_ramp_end
   \<and> ramp_thrust example_env (clock_reads example_ramp_end + 2) example_ramp_end \<le> 0
   \<and> zero_control_mode example_env \<noteq> NONE
   \<and> autopilot_state
        (stateEstimateCallback example_env (example_estimate WORLD True) example_ramp_end)
       = OFF
   \<and> (\<exists>c. published_since example_ramp_end
             (stateEstimateCallback example_env (example_estimate WORLD True)
                example_ramp_end) = [c]
          \<and> collective_thrust c = 0 \<and> \<not> armed c \<and> bodyrates c = Vector3d_Zero)"
proof -
  have T: "0 < propeller_ramp_down_timeout example_env"
    by (simp add: example_env_def)
  have z: "zero_control_mode example_env \<noteq> NONE"
    by (simp add: example_env_def)
  have v: "isValid (example_estimate WORLD True)"
    by (simp add: example_estimate_def)
  then have vs: "\<forall>m \<in> set [example_estimate WORLD True, example_estimate WORLD True,
                      example_estimate WORLD True, example_estimate WORLD True,
                      example_estimate WORLD True]. isValid m"
    by simp
  have l: "autopilot_state example_landing = LAND" "\<not> first_time_in_new_state example_landing"
      "time_to_ramp_down example_landing"
    by (simp_all add: example_landing_fields)
  have e4: "ramp_thrust example_env (clock_reads example_ramp_end + 2) example_ramp_end \<le> 0"
    unfolding example_ramp_end_fields(4) by simp
  have e: "autopilot_state example_ramp_end = LAND" "\<not> first_time_in_new_state example_ramp_end"
      "time_to_ramp_down example_ramp_end"
      "ramp_thrust example_env (clock_reads example_ramp_end + 2) example_ramp_end \<le> 0"
    using e4 by (simp_all add: example_ramp_end_fields(1-3))
  have rl: "example_landing =
      spin example_env example_events
        (AutoPilot_init QuadStateEstimate_default Vector3d_Zero Vector3d_Zero 0)"
    by (simp only: example_landing_reached example_init_def)
  have re: "example_ramp_end =
      spin example_env
        (example_events
         @ [EvStateEstimate (example_estimate WORLD True),
            EvStateEstimate (example_estimate WORLD True),
            EvStateEstimate (example_estimate WORLD True),
            EvStateEstimate (example_estimate WORLD True)])
        (AutoPilot_init QuadStateEstimate_default Vector3d_Zero Vector3d_Zero 0)"
    by (simp only: example_ramp_end_def example_init_def)
  from ramp_down_thrust_non_increasing [OF T example_clock_mono rl l vs]
  have s: "sorted_wrt (\<lambda>a b. b \<le> a)
        (map collective_thrust
           (published_since example_landing
              (ticks example_env
                 [example_estimate WORLD True, example_estimate WORLD True,
                  example_estimate WORLD True, example_estimate WORLD True,
                  example_estimate WORLD True] example_landing)))"
    by (rule conjunct1)
  from ramp_down_thrust_non_increasing [OF T example_clock_mono re e(1,2,3), of "[]"] v e(4) z
  have o: "autopilot_state
        (stateEstimateCallback example_env (example_estimate WORLD True) example_ramp_end)
       = OFF
     \<and> (\<exists>c. published_since example_ramp_end
             (stateEstimateCallback example_env (example_estimate WORLD True)
                example_ramp_end) = [c]
          \<and> collective_thrust c = 0 \<and> \<not> armed c \<and> bodyrates c = Vector3d_Zero)"
    by simp
  show ?thesis
    using T example_clock_mono l v s example_landing_run(1) e z o by (intro conjI) blast+
qed

text \<open>
  The claim fails outside these conditions. With a ramp-down time of -2 the two ticks after
  the latching tick publish the thrusts 85/8 and 1955/128, the second above the first, and
  the node stays in \<open>LAND\<close>. With a clock that falls back behind the latch time the two
  ticks publish 45/8 and 495/64. With a \<^verbatim>\<open>zero()\<close> that sets the control mode \<open>NONE\<close>
  the tick that ends the ramp switches to \<open>OFF\<close> and publishes nothing.
\<close>

theorem ramp_down_thrust_rises_counterexample:
  "propeller_ramp_down_timeout example_env_negative = - 2
   \<and> autopilot_state example_landing_negative = LAND
   \<and> \<not> first_time_in_new_state example_landing_negative
   \<and> time_to_ramp_down example_landing_negative
   \<and> isValid (example_estimate WORLD True)
   \<and> map collective_thrust
        (published_since example_landing_negative
           (ticks example_env_negative
              [example_estimate WORLD True, example_estimate WORLD True]
              example_landing_negative))
       = [85 / 8, 1955 / 128]
   \<and> (85 / 8 :: real) < 1955 / 128
   \<and> autopilot_state
        (ticks example_env_negative
           [example_estimate WORLD True, example_estimate WORLD True]
           example_landing_negative) = LAND
   \<and> clock example_env_backwards 12 < clock example_env_backwards 11
   \<and> autopilot_state example_landing_backwards = LAND
   \<and> \<not> first_time_in_new_state example_landing_backwards
   \<and> time_to_ramp_down example_landing_backwards
   \<and> map collective_thrust
        (published_since example_landing_backwards
           (ticks example_env_backwards
              [example_estimate WORLD True, example_estimate WORLD True]
              example_landing_backwards))
       = [45 / 8, 495 / 64]
   \<and> (45 / 8 :: real) < 495 / 64
   \<and> zero_control_mode example_env_zero_none = NONE
   \<and> autopilot_state example_ramp_end_zero_none = LAND
   \<and> \<not> first_time_in_new_state example_ramp_end_zero_none
   \<and> time_to_ramp_down example_ramp_end_zero_none
   \<and> autopilot_state
        (stateEstimateCallback example_env_zero_none (example_estimate WORLD True)
           example_ramp_end_zero_none) = OFF
   \<and> published_since example_ramp_end_zero_none
        (stateEstimateCallback example_env_zero_none (example_estimate WORLD True)
           example_ramp_end_zero_none) = []"
proof -
  have n: "propeller_ramp_down_timeout example_env_negative = - 2"
    by (simp add: example_env_negative_def)
  have b: "clock example_env_backwards 12 < clock example_env_backwards 11"
    by (simp add: example_env_backwards_def)
  have z: "zero_control_mode example_env_zero_none = NONE"
    by (simp add: example_env_zero_none_def)
  have v: "isValid (example_estimate WORLD True)"
    by (simp add: example_estimate_def)
  show ?thesis
    using n b z v
    by (simp add: example_landing_negative_fields example_landing_backwards_fields
          example_ramp_end_zero_none_fields)
qed

text \<open>
  Claim C4. While the latch is set the thrust is said to follow one linear ramp, from the
  thrust last issued when the latch was set down to zero over the ramp-down time. The source
  takes the start of the ramp from \<^verbatim>\<open>initial_drop_thrust_\<close>, which
  \<^verbatim>\<open>publishControlCommand\<close> overwrites with every command it publishes, the commands
  of the ramp included. In the run below the latch is set at time 3/4 with a last issued
  thrust of 8 and a ramp-down time of 2; half a second later the single ramp is at 6, and
  the tick publishes 45/8, the ramp applied to the 15/2 of the tick before.
\<close>

theorem ramp_down_restarts_from_last_command:
  "time_to_ramp_down example_landing
   \<and> initial_drop_thrust (landCallback example_env example_hovering) = 8
   \<and> propeller_ramp_down_timeout example_env = 2
   \<and> time_started_ramping_down example_landing = 3 / 4
   \<and> clock example_env (clock_reads example_landing + 2) = 5 / 4
   \<and> initial_drop_thrust example_landing = 15 / 2
   \<and> map collective_thrust
        (published_since example_landing
           (stateEstimateCallback example_env (example_estimate WORLD True) example_landing))
       = [45 / 8]
   \<and> ramp_thrust example_env (clock_reads example_landing + 2) example_landing = 45 / 8
   \<and> 8 * (1 - (5 / 4 - 3 / 4) / propeller_ramp_down_timeout example_env) = (6 :: real)"
proof -
  have a: "propeller_ramp_down_timeout example_env = 2"
    by (simp add: example_env_def)
  have k: "clock example_env 10 = 5 / 4"
    by (simp add: example_env_def)
  have b: "clock example_env (clock_reads example_landing + 2) = 5 / 4"
    by (simp add: example_landing_fields k)
  have c: "ramp_thrust example_env (clock_reads example_landing + 2) example_landing = 45 / 8"
    by (simp add: ramp_thrust_def a k example_landing_fields)
  show ?thesis
    using b c by (simp add: a example_landing_fields example_landing_second)
qed

end
